theory Spec2Isabelle
  imports Main
begin

section \<open>Common data: locations, diagnostics, lifetimes\<close>

text \<open>
  A source location (and the start of a source range) is a position number. A diagnostic is
  kept as its code and the location or range it was issued at; the notes and message
  arguments attached by \<^verbatim>\<open>diag << ...\<close> and \<^verbatim>\<open>addNote\<close> are kept only where a
  property speaks about them (the message string of the elaboration system tasks).
\<close>

type_synonym SourceLocation = nat

datatype DiagCode =
    AutomaticNotAllowed
  | StaticInitializerMustBeExplicit
  | ConstVarNoInitializer
  | GlobalClockingGenerate
  | MultipleDefaultInputSkew
  | MultipleDefaultOutputSkew
  | NamedArgNotAllowed
  | FatalTask
  | ErrorTask
  | WarningTask
  | InfoTask
  | StaticAssert
  | PrimitiveAnsiMix
  | PrimitivePortDup
  | PrimitiveRegDup
  | PrimitivePortUnknown
  | PrimitiveRegInput
  | PrimitivePortMissing
  | PrimitiveTwoPorts
  | PrimitiveOutputFirst
  | PrimitiveDupOutput
  | PrimitiveInitialInComb
  | PrimitiveDupInitial
  | PrimitiveWrongInitial
  | PrimitiveInitVal
  | UnsupportedUdpPortList
  | Redefinition
  | UnresolvedReference

datatype Diagnostic = Diag (code: DiagCode) (loc: SourceLocation) (msg: string)

abbreviation diag :: "DiagCode \<Rightarrow> SourceLocation \<Rightarrow> Diagnostic" where
  "diag c l \<equiv> Diag c l []"

datatype VariableLifetime = Automatic | Static

section \<open>Clocking blocks: \<^verbatim>\<open>ClockingBlockSymbol::fromSyntax\<close>\<close>

text \<open>
  A clocking skew syntax node is identified by its source range. An item of a clocking
  declaration is either a default-skew item, whose direction carries an optional input skew
  and an optional output skew, or any other member syntax, identified by a number.
\<close>

datatype ClockingSkewSyntax = ClockingSkewSyntax (skewRange: SourceLocation)

datatype ClockingItemSyntax =
    DefaultSkewItem (dirInputSkew: "ClockingSkewSyntax option")
                    (dirOutputSkew: "ClockingSkewSyntax option")
  | OtherClockingItem nat

datatype GlobalOrDefault = NoKeyword | DefaultKeyword | GlobalKeyword

datatype ClockingNote = DefaultClocking | GlobalClocking

record ClockingDeclarationSyntax =
  blockName :: string
  blockNameLocation :: SourceLocation
  globalOrDefault :: GlobalOrDefault
  clockingRange :: SourceLocation
  clockingItems :: "ClockingItemSyntax list"

text \<open>
  The clocking block symbol under construction together with the diagnostics added to the
  enclosing scope. \<^verbatim>\<open>addedMembers\<close> lists, in order, the item syntaxes handed to
  \<^verbatim>\<open>result->addMembers\<close>; \<^verbatim>\<open>noted\<close> is the call made to the compilation
  (\<^verbatim>\<open>noteDefaultClocking\<close> or \<^verbatim>\<open>noteGlobalClocking\<close>), if any.
\<close>

record ClockingBlockSymbol =
  cbName :: string
  cbLocation :: SourceLocation
  inputSkewSyntax :: "ClockingSkewSyntax option"
  outputSkewSyntax :: "ClockingSkewSyntax option"
  addedMembers :: "ClockingItemSyntax list"
  noted :: "ClockingNote option"

record ClockingLoopState =
  inputSkew :: "ClockingSkewSyntax option"
  outputSkew :: "ClockingSkewSyntax option"
  loopMembers :: "ClockingItemSyntax list"
  loopDiags :: "Diagnostic list"

text \<open>The input-skew part of one default-skew item.\<close>

definition stepInputSkew :: "ClockingSkewSyntax option \<Rightarrow> ClockingLoopState \<Rightarrow> ClockingLoopState" where
  "stepInputSkew dirIn st =
     (case dirIn of
        None \<Rightarrow> st
      | Some s \<Rightarrow>
          (case inputSkew st of
             Some prev \<Rightarrow> st\<lparr>loopDiags := loopDiags st @ [diag MultipleDefaultInputSkew (skewRange s)]\<rparr>
           | None \<Rightarrow> st\<lparr>inputSkew := Some s\<rparr>))"

text \<open>The output-skew part of one default-skew item.\<close>

definition stepOutputSkew :: "ClockingSkewSyntax option \<Rightarrow> ClockingLoopState \<Rightarrow> ClockingLoopState" where
  "stepOutputSkew dirOut st =
     (case dirOut of
        None \<Rightarrow> st
      | Some s \<Rightarrow>
          (case outputSkew st of
             Some prev \<Rightarrow> st\<lparr>loopDiags := loopDiags st @ [diag MultipleDefaultOutputSkew (skewRange s)]\<rparr>
           | None \<Rightarrow> st\<lparr>outputSkew := Some s\<rparr>))"

text \<open>The body of \<^verbatim>\<open>for (auto item : syntax.items)\<close>.\<close>

fun clockingItemStep :: "ClockingLoopState \<Rightarrow> ClockingItemSyntax \<Rightarrow> ClockingLoopState" where
  "clockingItemStep st (DefaultSkewItem dirIn dirOut) = stepOutputSkew dirOut (stepInputSkew dirIn st)"
| "clockingItemStep st (OtherClockingItem n) = st\<lparr>loopMembers := loopMembers st @ [OtherClockingItem n]\<rparr>"

fun clockingItemLoop :: "ClockingLoopState \<Rightarrow> ClockingItemSyntax list \<Rightarrow> ClockingLoopState" where
  "clockingItemLoop st [] = st"
| "clockingItemLoop st (item # items) = clockingItemLoop (clockingItemStep st item) items"

definition ClockingBlockSymbol_fromSyntax ::
  "bool \<Rightarrow> ClockingDeclarationSyntax \<Rightarrow> ClockingBlockSymbol \<times> Diagnostic list" where
  "ClockingBlockSymbol_fromSyntax scopeIsGenerateBlock syntax =
     (let note = (case globalOrDefault syntax of
                    DefaultKeyword \<Rightarrow> Some DefaultClocking
                  | GlobalKeyword \<Rightarrow> Some GlobalClocking
                  | NoKeyword \<Rightarrow> None);
          diags0 = (if globalOrDefault syntax = GlobalKeyword \<and> scopeIsGenerateBlock
                    then [diag GlobalClockingGenerate (clockingRange syntax)] else []);
          st = clockingItemLoop
                 \<lparr>inputSkew = None, outputSkew = None, loopMembers = [], loopDiags = diags0\<rparr>
                 (clockingItems syntax)
      in (\<lparr>cbName = blockName syntax, cbLocation = blockNameLocation syntax,
           inputSkewSyntax = inputSkew st, outputSkewSyntax = outputSkew st,
           addedMembers = loopMembers st, noted = note\<rparr>,
          loopDiags st))"

text \<open>What the property speaks about: the skews given by the default-skew items, in order.\<close>

fun inputSkewsOf :: "ClockingItemSyntax list \<Rightarrow> ClockingSkewSyntax list" where
  "inputSkewsOf [] = []"
| "inputSkewsOf (DefaultSkewItem (Some s) dirOut # items) = s # inputSkewsOf items"
| "inputSkewsOf (item # items) = inputSkewsOf items"

fun outputSkewsOf :: "ClockingItemSyntax list \<Rightarrow> ClockingSkewSyntax list" where
  "outputSkewsOf [] = []"
| "outputSkewsOf (DefaultSkewItem dirIn (Some s) # items) = s # outputSkewsOf items"
| "outputSkewsOf (item # items) = outputSkewsOf items"

fun isDefaultSkewItem :: "ClockingItemSyntax \<Rightarrow> bool" where
  "isDefaultSkewItem (DefaultSkewItem dirIn dirOut) = True"
| "isDefaultSkewItem (OtherClockingItem n) = False"

definition firstOf :: "'a list \<Rightarrow> 'a option" where
  "firstOf xs = (case xs of [] \<Rightarrow> None | x # rest \<Rightarrow> Some x)"

definition diagsWith :: "DiagCode \<Rightarrow> Diagnostic list \<Rightarrow> Diagnostic list" where
  "diagsWith c ds = filter (\<lambda>d. code d = c) ds"

section \<open>Variables: \<^verbatim>\<open>VariableSymbol::fromSyntax\<close> for a data declaration\<close>

text \<open>
  The part of a scope that the function reads: the kind of the symbol that owns the scope,
  the default lifetime stored in a statement block or subroutine, the definition kind of an
  instance body, and the answer of \<^verbatim>\<open>Scope::isProceduralContext\<close>, which is defined
  in another source file and is therefore a field here.
\<close>

datatype SymbolKind =
    StatementBlock | Subroutine | MethodPrototype | ProceduralBlock
  | InstanceBody | GenerateBlock | Package | OtherSymbolKind

datatype DefinitionKind = Module | Interface | Program

record Scope =
  scopeKind :: SymbolKind
  defaultLifetime :: VariableLifetime
  definitionKind :: DefinitionKind
  isProceduralContext :: bool

definition getDefaultLifetime :: "Scope \<Rightarrow> VariableLifetime" where
  "getDefaultLifetime scope =
     (case scopeKind scope of
        StatementBlock \<Rightarrow> defaultLifetime scope
      | Subroutine \<Rightarrow> defaultLifetime scope
      | MethodPrototype \<Rightarrow> Automatic
      | _ \<Rightarrow> Static)"

text \<open>
  The modifiers of a data declaration are tokens of four kinds; the \<^verbatim>\<open>default\<close> branch
  of the switch is \<^verbatim>\<open>ASSUME_UNREACHABLE\<close>, so the token kind type has these four values
  only. A token carries its source range.
\<close>

datatype ModifierKind = VarKeyword | ConstKeyword | StaticKeyword | AutomaticKeyword

datatype ModifierToken = ModifierToken (modKind: ModifierKind) (modRange: SourceLocation)

text \<open>
  A declarator: its name token (text and location; the location is also the start of the
  name's range) and whether an initializer is present.
\<close>

record DeclaratorSyntax =
  declName :: string
  declNameLocation :: SourceLocation
  hasInitializer :: bool

record DataDeclarationSyntax =
  modifiers :: "ModifierToken list"
  declarators :: "DeclaratorSyntax list"

record VariableSymbol =
  varName :: string
  varLocation :: SourceLocation
  lifetime :: VariableLifetime
  flagConst :: bool
  flagInterfaceVariable :: bool
  flagAutomaticInitializer :: bool
  varHasInitializer :: bool

text \<open>The constructor: an automatic variable gets the \<^verbatim>\<open>AutomaticInitializer\<close> flag.\<close>

definition newVariableSymbol :: "string \<Rightarrow> SourceLocation \<Rightarrow> VariableLifetime \<Rightarrow> VariableSymbol" where
  "newVariableSymbol name l lt =
     \<lparr>varName = name, varLocation = l, lifetime = lt, flagConst = False,
      flagInterfaceVariable = False, flagAutomaticInitializer = (lt = Automatic),
      varHasInitializer = False\<rparr>"

text \<open>The state of the loop over the modifiers.\<close>

record ModifierState =
  isConst :: bool
  explicitLifetime :: "VariableLifetime option"
  modDiags :: "Diagnostic list"

definition modifierStep :: "bool \<Rightarrow> ModifierState \<Rightarrow> ModifierToken \<Rightarrow> ModifierState" where
  "modifierStep inProceduralContext st m =
     (case modKind m of
        VarKeyword \<Rightarrow> st
      | ConstKeyword \<Rightarrow> st\<lparr>isConst := True\<rparr>
      | StaticKeyword \<Rightarrow> st\<lparr>explicitLifetime := Some Static\<rparr>
      | AutomaticKeyword \<Rightarrow>
          (if \<not> inProceduralContext
           then st\<lparr>explicitLifetime := Some Static,
                   modDiags := modDiags st @ [diag AutomaticNotAllowed (modRange m)]\<rparr>
           else st\<lparr>explicitLifetime := Some Automatic\<rparr>))"

fun modifierLoop :: "bool \<Rightarrow> ModifierState \<Rightarrow> ModifierToken list \<Rightarrow> ModifierState" where
  "modifierLoop inProc st [] = st"
| "modifierLoop inProc st (m # ms) = modifierLoop inProc (modifierStep inProc st m) ms"

text \<open>
  The body of the loop over the declarators, for one declarator: the variable created and
  the diagnostics it adds.
\<close>

definition declaratorStep ::
  "Scope \<Rightarrow> bool \<Rightarrow> bool \<Rightarrow> VariableLifetime \<Rightarrow> bool \<Rightarrow> DeclaratorSyntax
     \<Rightarrow> VariableSymbol \<times> Diagnostic list" where
  "declaratorStep scope isConstV isInIface lt hasExplicitLifetime d =
     (let variable = (newVariableSymbol (declName d) (declNameLocation d) lt)
                       \<lparr>varHasInitializer := hasInitializer d,
                        flagConst := isConstV,
                        flagInterfaceVariable := isInIface\<rparr>;
          d1 = (if lt = Static \<and> \<not> hasExplicitLifetime \<and> hasInitializer d
                   \<and> isProceduralContext scope
                then [diag StaticInitializerMustBeExplicit (declNameLocation d)] else []);
          d2 = (if isConstV \<and> \<not> hasInitializer d
                then [diag ConstVarNoInitializer (declNameLocation d)] else [])
      in (variable, d1 @ d2))"

fun declaratorLoop ::
  "Scope \<Rightarrow> bool \<Rightarrow> bool \<Rightarrow> VariableLifetime \<Rightarrow> bool \<Rightarrow> DeclaratorSyntax list
     \<Rightarrow> VariableSymbol list \<times> Diagnostic list" where
  "declaratorLoop scope c i lt e [] = ([], [])"
| "declaratorLoop scope c i lt e (d # ds) =
     (let (v, dg) = declaratorStep scope c i lt e d;
          (vs, dgs) = declaratorLoop scope c i lt e ds
      in (v # vs, dg @ dgs))"

text \<open>
  \<^verbatim>\<open>VariableSymbol::fromSyntax(compilation, DataDeclarationSyntax, scope, results)\<close>:
  the variables pushed to \<^verbatim>\<open>results\<close> and the diagnostics added to the scope, in order.
\<close>

definition VariableSymbol_fromSyntax ::
  "Scope \<Rightarrow> DataDeclarationSyntax \<Rightarrow> VariableSymbol list \<times> Diagnostic list" where
  "VariableSymbol_fromSyntax scope syntax =
     (let inProceduralContext = isProceduralContext scope;
          st = modifierLoop inProceduralContext
                 \<lparr>isConst = False, explicitLifetime = None, modDiags = []\<rparr> (modifiers syntax);
          hasExplicitLifetime = (explicitLifetime st \<noteq> None);
          lt = (case explicitLifetime st of Some l \<Rightarrow> l | None \<Rightarrow> getDefaultLifetime scope);
          isInIface = (scopeKind scope = InstanceBody \<and> definitionKind scope = Interface);
          (vs, dgs) = declaratorLoop scope (isConst st) isInIface lt hasExplicitLifetime
                        (declarators syntax)
      in (vs, modDiags st @ dgs))"

text \<open>What the properties speak about.\<close>

definition isLifetimeKeyword :: "ModifierToken \<Rightarrow> bool" where
  "isLifetimeKeyword m = (modKind m = StaticKeyword \<or> modKind m = AutomaticKeyword)"

definition hasLifetimeKeyword :: "ModifierToken list \<Rightarrow> bool" where
  "hasLifetimeKeyword ms = (filter isLifetimeKeyword ms \<noteq> [])"

definition isAutomaticKeyword :: "ModifierToken \<Rightarrow> bool" where
  "isAutomaticKeyword m = (modKind m = AutomaticKeyword)"

definition lastLifetimeKeyword :: "ModifierToken list \<Rightarrow> ModifierKind option" where
  "lastLifetimeKeyword ms = firstOf (rev (map modKind (filter isLifetimeKeyword ms)))"

text \<open>Concrete scopes and declarations used to evaluate the functions above.\<close>

definition demo_blockScope :: Scope where
  "demo_blockScope = \<lparr>scopeKind = StatementBlock, defaultLifetime = Static,
                       definitionKind = Module, isProceduralContext = True\<rparr>"

definition demo_moduleScope :: Scope where
  "demo_moduleScope = \<lparr>scopeKind = InstanceBody, defaultLifetime = Static,
                        definitionKind = Module, isProceduralContext = False\<rparr>"

definition demo_declX :: DeclaratorSyntax where
  "demo_declX = \<lparr>declName = ''x'', declNameLocation = 20, hasInitializer = True\<rparr>"

definition demo_declY :: DeclaratorSyntax where
  "demo_declY = \<lparr>declName = ''y'', declNameLocation = 27, hasInitializer = False\<rparr>"

definition demo_plainDecl :: DataDeclarationSyntax where
  "demo_plainDecl = \<lparr>modifiers = [], declarators = [demo_declX, demo_declY]\<rparr>"

definition demo_automaticDecl :: DataDeclarationSyntax where
  "demo_automaticDecl = \<lparr>modifiers = [ModifierToken AutomaticKeyword 10],
                           declarators = [demo_declX, demo_declY]\<rparr>"

definition demo_automaticStaticDecl :: DataDeclarationSyntax where
  "demo_automaticStaticDecl =
     \<lparr>modifiers = [ModifierToken AutomaticKeyword 3, ModifierToken StaticKeyword 13],
      declarators = [demo_declX]\<rparr>"

section \<open>Syntax and bound expressions\<close>

text \<open>
  A token is kept as its value text and its location (which is also the start of its
  range). Expression syntax is a tree: a bare identifier, a scoped name, an assignment
  expression (a binary expression syntax of that kind, with its left and right operands), or
  any other expression with its kind number, its first token's location and its operands.
\<close>

datatype Token = Token (valueText: string) (tokLocation: SourceLocation)

datatype ExpressionSyntax =
    IdentifierName Token
  | ScopedName ExpressionSyntax ExpressionSyntax
  | AssignmentExpression ExpressionSyntax ExpressionSyntax
  | OtherExpression nat SourceLocation "ExpressionSyntax list"

fun firstTokenLocation :: "ExpressionSyntax \<Rightarrow> SourceLocation" where
  "firstTokenLocation (IdentifierName t) = tokLocation t"
| "firstTokenLocation (ScopedName l r) = firstTokenLocation l"
| "firstTokenLocation (AssignmentExpression l r) = firstTokenLocation l"
| "firstTokenLocation (OtherExpression k l es) = l"

text \<open>
  The integer class \<^verbatim>\<open>SVInt\<close> is declared in another source file. A value is kept
  as what the code here reads of it: its bit width, its bit 0, and the truth of the
  comparisons \<^verbatim>\<open>val == 0\<close> and \<^verbatim>\<open>val == 1\<close>.
\<close>

datatype logic_t = L0 | L1 | LX | LZ

record SVInt =
  svBitWidth :: nat
  svBit0 :: logic_t
  svEquals0 :: bool
  svEquals1 :: bool

datatype ConstantValue = IntegerValue SVInt | OtherValue nat

datatype ExpressionKind =
  Invalid | IntegerLiteral | BinaryOp | Assignment | EmptyArgument | OtherExpressionKind

text \<open>
  A bound expression, as far as the code here reads it: its kind, whether it is
  \<^verbatim>\<open>bad()\<close>, the bit width of its type, whether it is an unsized integer, its source
  range and its cached \<^verbatim>\<open>constant\<close> (here \<^verbatim>\<open>exprConstant\<close>).
\<close>

record Expression =
  exprKind :: ExpressionKind
  exprBad :: bool
  typeBitWidth :: nat
  isUnsizedInteger :: bool
  exprSourceRange :: SourceLocation
  exprConstant :: "ConstantValue option"

datatype PropertyExprSyntax = SimplePropertyExpr ExpressionSyntax | OtherPropertyExpr nat

text \<open>
  The binder, the constant evaluator and the format helpers are defined in other source
  files; a context supplies them as functions. \<^verbatim>\<open>eval\<close> returns the value, if the
  expression has one, and the expression as the evaluation leaves it (it may cache the
  value in \<^verbatim>\<open>constant\<close>). The diagnostics that these helpers issue themselves are not
  part of the model.
\<close>

record ASTContext =
  requireSimpleExpr :: "PropertyExprSyntax \<Rightarrow> ExpressionSyntax option"
  bind :: "ExpressionSyntax \<Rightarrow> Expression"
  requireBooleanConvertible :: "Expression \<Rightarrow> bool"
  eval :: "Expression \<Rightarrow> ConstantValue option \<times> Expression"
  checkFinishNum :: "Expression \<Rightarrow> bool"
  checkDisplayArgs :: "Expression list \<Rightarrow> bool"
  formatDisplay :: "Expression list \<Rightarrow> string option"
  isTrue :: "ConstantValue \<Rightarrow> bool"

section \<open>Lazily computed fields: \<^verbatim>\<open>ContinuousAssignSymbol::getAssignment\<close> and \<^verbatim>\<open>NetSymbol::getDelay\<close>\<close>

record ContinuousAssignSymbol =
  casLocation :: SourceLocation
  casSyntax :: "ExpressionSyntax option"
  casHasParentScope :: bool
  assign :: "Expression option"

text \<open>The constructor from syntax.\<close>

definition newContinuousAssignSymbol :: "ExpressionSyntax \<Rightarrow> ContinuousAssignSymbol" where
  "newContinuousAssignSymbol syntax =
     \<lparr>casLocation = firstTokenLocation syntax, casSyntax = Some syntax,
      casHasParentScope = False, assign = None\<rparr>"

text \<open>The constructor from a location and an assignment that is already bound.\<close>

definition newBoundContinuousAssignSymbol ::
  "SourceLocation \<Rightarrow> Expression \<Rightarrow> ContinuousAssignSymbol" where
  "newBoundContinuousAssignSymbol l assignment =
     \<lparr>casLocation = l, casSyntax = None, casHasParentScope = False, assign = Some assignment\<rparr>"

text \<open>
  \<^verbatim>\<open>getAssignment\<close> returns the expression and leaves the symbol with its cache filled
  (the field is \<^verbatim>\<open>mutable\<close>). \<^verbatim>\<open>None\<close> is the failure of
  \<^verbatim>\<open>ASSERT(scope && syntax)\<close>. The argument \<^verbatim>\<open>bindIn\<close> is
  \<^verbatim>\<open>Expression::bind\<close> in the context built from the parent scope.
\<close>

definition getAssignment ::
  "(ExpressionSyntax \<Rightarrow> Expression) \<Rightarrow> ContinuousAssignSymbol
     \<Rightarrow> (Expression \<times> ContinuousAssignSymbol) option" where
  "getAssignment bindIn cas =
     (case assign cas of
        Some e \<Rightarrow> Some (e, cas)
      | None \<Rightarrow>
          (case casSyntax cas of
             None \<Rightarrow> None
           | Some syntax \<Rightarrow>
               if \<not> casHasParentScope cas then None
               else Some (bindIn syntax, cas\<lparr>assign := Some (bindIn syntax)\<rparr>)))"

text \<open>
  A sequence of calls, one for each binder of the list (the context, and so the binder, may
  differ from call to call): the expressions returned, in order, and the final symbol.
\<close>

fun getAssignmentCalls ::
  "(ExpressionSyntax \<Rightarrow> Expression) list \<Rightarrow> ContinuousAssignSymbol
     \<Rightarrow> (Expression list \<times> ContinuousAssignSymbol) option" where
  "getAssignmentCalls [] cas = Some ([], cas)"
| "getAssignmentCalls (b # bs) cas =
     (case getAssignment b cas of
        None \<Rightarrow> None
      | Some (e, cas') \<Rightarrow>
          (case getAssignmentCalls bs cas' of
             None \<Rightarrow> None
           | Some (es, cas'') \<Rightarrow> Some (e # es, cas'')))"

text \<open>Nets. A net type is kept as its kind; a type as the few types the code here names.\<close>

datatype NetKind =
    Unknown | Wire | WAnd | WOr | Tri | TriAnd | TriOr | Tri0 | Tri1 | TriReg
  | Supply0 | Supply1 | UWire | Interconnect | UserDefined

datatype NetType = NetType (netKind: NetKind)

datatype Type = LogicType | ErrorType | VoidType | OtherType nat

datatype ExpansionHint = NoHint | Vectored | Scalared

datatype TimingControl = BoundDelay nat

datatype DelaySyntax = DelaySyntax nat

datatype ParameterValueAssignmentSyntax = ParameterValueAssignment nat

datatype NameSyntax = ClassName ParameterValueAssignmentSyntax | OtherName

datatype DataTypeSyntax = NamedType NameSyntax | OtherDataType

text \<open>The parent of a net's syntax node, as \<^verbatim>\<open>getDelay\<close> reads it.\<close>

datatype SyntaxParent =
    NetDeclarationParent "DelaySyntax option"
  | DataDeclarationParent DataTypeSyntax
  | OtherSyntaxParent

text \<open>
  \<^verbatim>\<open>netSyntax\<close> is \<^verbatim>\<open>None\<close> when the symbol has no syntax, \<^verbatim>\<open>Some None\<close> when its
  syntax has no parent, and \<^verbatim>\<open>Some (Some p)\<close> otherwise. \<^verbatim>\<open>delay\<close> is the
  \<^verbatim>\<open>std::optional\<close> of a pointer that may be null: \<^verbatim>\<open>None\<close> is not yet computed,
  \<^verbatim>\<open>Some None\<close> is computed with no delay.
\<close>

record NetSymbol =
  netName :: string
  netLocation :: SourceLocation
  netType :: NetType
  netResolvedType :: "Type option"
  flagInterconnectNet :: bool
  isImplicit :: bool
  expansionHint :: ExpansionHint
  netHasParentScope :: bool
  netSyntax :: "SyntaxParent option option"
  delay :: "TimingControl option option"

record DelayBinders =
  TimingControl_bind :: "DelaySyntax \<Rightarrow> TimingControl"
  DelayControl_fromParams :: "ParameterValueAssignmentSyntax \<Rightarrow> TimingControl"

definition NetSymbol_getDelay ::
  "DelayBinders \<Rightarrow> NetSymbol \<Rightarrow> TimingControl option \<times> NetSymbol" where
  "NetSymbol_getDelay b net =
     (case delay net of
        Some d \<Rightarrow> (d, net)
      | None \<Rightarrow>
          (if \<not> netHasParentScope net then (None, net\<lparr>delay := Some None\<rparr>)
           else
             (case netSyntax net of
                None \<Rightarrow> (None, net\<lparr>delay := Some None\<rparr>)
              | Some None \<Rightarrow> (None, net\<lparr>delay := Some None\<rparr>)
              | Some (Some (NetDeclarationParent (Some delaySyntax))) \<Rightarrow>
                  (Some (TimingControl_bind b delaySyntax),
                   net\<lparr>delay := Some (Some (TimingControl_bind b delaySyntax))\<rparr>)
              | Some (Some (DataDeclarationParent (NamedType (ClassName params)))) \<Rightarrow>
                  (Some (DelayControl_fromParams b params),
                   net\<lparr>delay := Some (Some (DelayControl_fromParams b params))\<rparr>)
              | Some (Some other) \<Rightarrow> (None, net\<lparr>delay := Some None\<rparr>))))"

fun getDelayCalls :: "DelayBinders list \<Rightarrow> NetSymbol \<Rightarrow> TimingControl option list \<times> NetSymbol" where
  "getDelayCalls [] net = ([], net)"
| "getDelayCalls (b # bs) net =
     (case NetSymbol_getDelay b net of
        (d, net') \<Rightarrow> (case getDelayCalls bs net' of (ds, net'') \<Rightarrow> (d # ds, net'')))"

text \<open>A continuous assign and a net used to evaluate the functions above.\<close>

definition demo_fooSyntax :: ExpressionSyntax where
  "demo_fooSyntax =
     AssignmentExpression (IdentifierName (Token ''foo'' 26)) (OtherExpression 1 32 [])"

definition demo_assignFoo :: ContinuousAssignSymbol where
  "demo_assignFoo = (newContinuousAssignSymbol demo_fooSyntax)\<lparr>casHasParentScope := True\<rparr>"

definition demo_bindA :: "ExpressionSyntax \<Rightarrow> Expression" where
  "demo_bindA syntax =
     \<lparr>exprKind = Assignment, exprBad = False, typeBitWidth = 1, isUnsizedInteger = False,
      exprSourceRange = firstTokenLocation syntax, exprConstant = None\<rparr>"

definition demo_bindB :: "ExpressionSyntax \<Rightarrow> Expression" where
  "demo_bindB syntax =
     \<lparr>exprKind = Invalid, exprBad = True, typeBitWidth = 0, isUnsizedInteger = False,
      exprSourceRange = 0, exprConstant = None\<rparr>"

definition demo_delayedNet :: NetSymbol where
  "demo_delayedNet =
     \<lparr>netName = ''w'', netLocation = 12, netType = NetType Wire, netResolvedType = None,
      flagInterconnectNet = False, isImplicit = False, expansionHint = NoHint,
      netHasParentScope = True,
      netSyntax = Some (Some (NetDeclarationParent (Some (DelaySyntax 7)))), delay = None\<rparr>"

definition demo_delayBindersA :: DelayBinders where
  "demo_delayBindersA =
     \<lparr>TimingControl_bind = (\<lambda>d. case d of DelaySyntax n \<Rightarrow> BoundDelay n),
      DelayControl_fromParams = (\<lambda>p. BoundDelay 0)\<rparr>"

definition demo_delayBindersB :: DelayBinders where
  "demo_delayBindersB =
     \<lparr>TimingControl_bind = (\<lambda>d. BoundDelay 99),
      DelayControl_fromParams = (\<lambda>p. BoundDelay 98)\<rparr>"

section \<open>Elaboration system tasks: \<^verbatim>\<open>ElabSystemTaskSymbol\<close>\<close>

datatype ElabSystemTaskKind = Fatal | Error | Warning | Info | StaticAssertTask

text \<open>An argument of the task; a named or empty argument is kept as its source range.\<close>

datatype ArgumentSyntax =
    OrderedArgument PropertyExprSyntax
  | NamedArgument SourceLocation
  | EmptyArgumentSyntax SourceLocation

text \<open>
  The symbol: its kind and location, the argument list of its syntax (\<^verbatim>\<open>estSyntax\<close> is
  \<^verbatim>\<open>None\<close> when the symbol has no syntax, \<^verbatim>\<open>Some None\<close> when the syntax has no
  argument list), whether it has a parent scope, and the two mutable fields
  \<^verbatim>\<open>message\<close> and \<^verbatim>\<open>assertCondition\<close>.
\<close>

record ElabSystemTaskSymbol =
  taskKind :: ElabSystemTaskKind
  estLocation :: SourceLocation
  estSyntax :: "ArgumentSyntax list option option"
  estHasParentScope :: bool
  message :: "string option"
  assertCondition :: "Expression option"


definition emptyArgumentExpression :: "SourceLocation \<Rightarrow> Expression" where
  "emptyArgumentExpression r =
     \<lparr>exprKind = EmptyArgument, exprBad = False, typeBitWidth = 0, isUnsizedInteger = False,
      exprSourceRange = r, exprConstant = None\<rparr>"

text \<open>
  The loop that binds all arguments. The result is the diagnostics added and the bound
  arguments, or \<^verbatim>\<open>None\<close> where the source leaves through \<^verbatim>\<open>return empty()\<close>.
\<close>

fun bindArguments ::
  "ASTContext \<Rightarrow> Expression list \<Rightarrow> ArgumentSyntax list \<Rightarrow> Diagnostic list \<times> Expression list option" where
  "bindArguments ctx args [] = ([], Some args)"
| "bindArguments ctx args (OrderedArgument oa # rest) =
     (case requireSimpleExpr ctx oa of
        None \<Rightarrow> ([], None)
      | Some exSyn \<Rightarrow>
          if exprBad (bind ctx exSyn) then ([], None)
          else bindArguments ctx (args @ [bind ctx exSyn]) rest)"
| "bindArguments ctx args (NamedArgument r # rest) = ([diag NamedArgNotAllowed r], None)"
| "bindArguments ctx args (EmptyArgumentSyntax r # rest) =
     (if exprBad (emptyArgumentExpression r) then ([], None)
      else bindArguments ctx (args @ [emptyArgumentExpression r]) rest)"

definition createMessage :: "ASTContext \<Rightarrow> Expression list \<Rightarrow> string" where
  "createMessage ctx args =
     (if \<not> checkDisplayArgs ctx args then []
      else
        (case formatDisplay ctx args of
           None \<Rightarrow> []
         | Some str \<Rightarrow> if str = [] then [] else '': '' @ str))"

text \<open>
  \<^verbatim>\<open>getMessage\<close>: the message, the diagnostics added and the symbol with its caches
  filled. \<^verbatim>\<open>None\<close> is the failure of one of the two assertions.
\<close>

definition getMessage ::
  "ASTContext \<Rightarrow> ElabSystemTaskSymbol \<Rightarrow> (string \<times> Diagnostic list \<times> ElabSystemTaskSymbol) option" where
  "getMessage ctx task =
     (case message task of
        Some m \<Rightarrow> Some (m, [], task)
      | None \<Rightarrow>
          (case estSyntax task of
             None \<Rightarrow> None
           | Some None \<Rightarrow> Some ([], [], task\<lparr>message := Some []\<rparr>)
           | Some (Some argSyntax) \<Rightarrow>
               if \<not> estHasParentScope task then None
               else
                 (case bindArguments ctx [] argSyntax of
                    (ds, None) \<Rightarrow> Some ([], ds, task\<lparr>message := Some []\<rparr>)
                  | (ds, Some []) \<Rightarrow>
                      Some (createMessage ctx [], ds, task\<lparr>message := Some (createMessage ctx [])\<rparr>)
                  | (ds, Some (arg0 # argSpan)) \<Rightarrow>
                      if taskKind task = Fatal then
                        (if \<not> checkFinishNum ctx arg0
                         then Some ([], ds, task\<lparr>message := Some []\<rparr>)
                         else Some (createMessage ctx argSpan, ds,
                                    task\<lparr>message := Some (createMessage ctx argSpan)\<rparr>))
                      else if taskKind task = StaticAssertTask then
                        (if \<not> requireBooleanConvertible ctx arg0
                         then Some ([], ds, task\<lparr>message := Some []\<rparr>)
                         else
                           (case eval ctx arg0 of
                              (None, evaluated) \<Rightarrow> Some ([], ds, task\<lparr>message := Some []\<rparr>)
                            | (Some cv, evaluated) \<Rightarrow>
                                Some (createMessage ctx argSpan, ds,
                                      task\<lparr>assertCondition := Some evaluated,
                                           message := Some (createMessage ctx argSpan)\<rparr>)))
                      else Some (createMessage ctx (arg0 # argSpan), ds,
                                 task\<lparr>message := Some (createMessage ctx (arg0 # argSpan))\<rparr>))))"




text \<open>\<^verbatim>\<open>getAssertCondition\<close>.\<close>

definition getAssertCondition ::
  "ASTContext \<Rightarrow> ElabSystemTaskSymbol \<Rightarrow> (Expression option \<times> ElabSystemTaskSymbol) option" where
  "getAssertCondition ctx task =
     (case getMessage ctx task of
        None \<Rightarrow> None
      | Some (m, ds, task') \<Rightarrow> Some (assertCondition task', task'))"


text \<open>
  A context and the tasks used to evaluate the functions above. The binder of the context
  reads an expression syntax of kind \<^verbatim>\<open>k\<close> as an integer literal that is 1 when
  \<^verbatim>\<open>k = 1\<close> and 0 otherwise, with its constant already known; a constant is true when
  it equals 1; the formatted text of any argument list that is not empty is
  \<^verbatim>\<open>failed\<close>.
\<close>

definition demo_literal :: "bool \<Rightarrow> SourceLocation \<Rightarrow> Expression" where
  "demo_literal one l =
     \<lparr>exprKind = IntegerLiteral, exprBad = False, typeBitWidth = 32, isUnsizedInteger = True,
      exprSourceRange = l,
      exprConstant = Some (IntegerValue \<lparr>svBitWidth = 32, svBit0 = (if one then L1 else L0),
                                         svEquals0 = (\<not> one), svEquals1 = one\<rparr>)\<rparr>"

definition demo_context :: ASTContext where
  "demo_context =
     \<lparr>requireSimpleExpr = (\<lambda>p. case p of SimplePropertyExpr e \<Rightarrow> Some e | OtherPropertyExpr n \<Rightarrow> None),
      bind = (\<lambda>s. demo_literal (case s of OtherExpression k l es \<Rightarrow> k = 1 | _ \<Rightarrow> False)
                     (firstTokenLocation s)),
      requireBooleanConvertible = (\<lambda>e. True),
      eval = (\<lambda>e. (exprConstant e, e)),
      checkFinishNum = (\<lambda>e. True),
      checkDisplayArgs = (\<lambda>es. True),
      formatDisplay = (\<lambda>es. if es = [] then None else Some ''failed''),
      isTrue = (\<lambda>cv. case cv of IntegerValue v \<Rightarrow> svEquals1 v | OtherValue n \<Rightarrow> False)\<rparr>"








section \<open>User-defined primitives: \<^verbatim>\<open>PrimitivePortSymbol\<close> and \<^verbatim>\<open>PrimitiveSymbol::fromSyntax\<close>\<close>

datatype PrimitivePortDirection = In | Out | OutReg

text \<open>
  An output port declaration: whether the \<^verbatim>\<open>output\<close> keyword and the \<^verbatim>\<open>reg\<close>
  token are present, the location of the \<^verbatim>\<open>reg\<close> token, the name, the inline
  initializer if any, and the start of the declaration's range. An input port declaration
  lists names.
\<close>

record UdpOutputPortDeclSyntax =
  outKeyword :: bool
  outReg :: bool
  outRegLocation :: SourceLocation
  outName :: Token
  outInitializer :: "ExpressionSyntax option"
  outRange :: SourceLocation

datatype UdpPortDeclSyntax =
    UdpOutputPortDecl UdpOutputPortDeclSyntax
  | UdpInputPortDecl SourceLocation "Token list"

fun declRange :: "UdpPortDeclSyntax \<Rightarrow> SourceLocation" where
  "declRange (UdpOutputPortDecl d) = outRange d"
| "declRange (UdpInputPortDecl r names) = r"

datatype UdpPortListSyntax =
    AnsiUdpPortList "UdpPortDeclSyntax list"
  | NonAnsiUdpPortList "Token list"
  | WildcardUdpPortList

record UdpInitialStmtSyntax =
  initialName :: Token
  initialValue :: ExpressionSyntax
  initialRange :: SourceLocation

record UdpBodySyntax =
  portDecls :: "UdpPortDeclSyntax list"
  initialStmt :: "UdpInitialStmtSyntax option"

record UdpDeclarationSyntax =
  udpName :: Token
  portList :: UdpPortListSyntax
  udpBody :: UdpBodySyntax

text \<open>The syntax node a port symbol was given by \<^verbatim>\<open>setSyntax\<close>.\<close>

datatype PortSyntax = FromOutputDecl UdpOutputPortDeclSyntax | FromIdentifierName Token

record PrimitivePortSymbol =
  portName :: string
  portLocation :: SourceLocation
  direction :: PrimitivePortDirection
  portType :: Type
  portSyntax :: "PortSyntax option"

text \<open>The constructor: \<^verbatim>\<open>setType(compilation.getLogicType())\<close>.\<close>

definition newPrimitivePortSymbol ::
  "string \<Rightarrow> SourceLocation \<Rightarrow> PrimitivePortDirection \<Rightarrow> PrimitivePortSymbol" where
  "newPrimitivePortSymbol name l dir =
     \<lparr>portName = name, portLocation = l, direction = dir, portType = LogicType,
      portSyntax = None\<rparr>"

text \<open>
  The primitive symbol. Its members are the very port symbols of \<^verbatim>\<open>ports\<close> (the same
  objects, added by \<^verbatim>\<open>addMember\<close>), so they are not listed twice.
\<close>

record PrimitiveSymbol =
  primName :: string
  primLocation :: SourceLocation
  primPorts :: "PrimitivePortSymbol list"
  isSequential :: bool
  initVal :: "ConstantValue option"

subsection \<open>The ANSI port list\<close>

fun ansiPorts :: "UdpPortDeclSyntax list \<Rightarrow> PrimitivePortSymbol list" where
  "ansiPorts [] = []"
| "ansiPorts (UdpOutputPortDecl outputDecl # decls) =
     (newPrimitivePortSymbol (valueText (outName outputDecl)) (tokLocation (outName outputDecl))
        (if outReg outputDecl then OutReg else Out))
       \<lparr>portSyntax := Some (FromOutputDecl outputDecl)\<rparr>
     # ansiPorts decls"
| "ansiPorts (UdpInputPortDecl r names # decls) =
     map (\<lambda>name. (newPrimitivePortSymbol (valueText name) (tokLocation name) In)
                    \<lparr>portSyntax := Some (FromIdentifierName name)\<rparr>) names
     @ ansiPorts decls"

subsection \<open>The non-ANSI port list\<close>

text \<open>
  The port map sends a name to its port symbol; here to the index of that symbol in the
  list of ports. \<^verbatim>\<open>emplace\<close> keeps an entry that is already there, and an empty name
  is not entered.
\<close>

fun buildPortMap :: "nat \<Rightarrow> Token list \<Rightarrow> (string \<rightharpoonup> nat) \<Rightarrow> (string \<rightharpoonup> nat)" where
  "buildPortMap i [] portMap = portMap"
| "buildPortMap i (name # names) portMap =
     buildPortMap (Suc i) names
       (if valueText name \<noteq> [] \<and> portMap (valueText name) = None
        then portMap(valueText name \<mapsto> i) else portMap)"

text \<open>
  Reading and updating the port symbol an index stands for. Every index in the port map is
  an index of the list; the guards make the functions total all the same.
\<close>

definition portAt :: "PrimitivePortSymbol list \<Rightarrow> nat \<Rightarrow> PrimitivePortSymbol option" where
  "portAt ports i = (if i < length ports then Some (ports ! i) else None)"

definition updatePort ::
  "nat \<Rightarrow> (PrimitivePortSymbol \<Rightarrow> PrimitivePortSymbol) \<Rightarrow> PrimitivePortSymbol list
     \<Rightarrow> PrimitivePortSymbol list" where
  "updatePort i f ports = (if i < length ports then ports[i := f (ports ! i)] else ports)"

record NonAnsiState =
  naPorts :: "PrimitivePortSymbol list"
  naDiags :: "Diagnostic list"
  regSpecifier :: "UdpOutputPortDeclSyntax option"

text \<open>The lambda \<^verbatim>\<open>checkDup\<close>, for the port at an index.\<close>

definition checkDup :: "PrimitivePortSymbol list \<Rightarrow> nat \<Rightarrow> Token \<Rightarrow> Diagnostic list" where
  "checkDup ports i nameToken =
     (case portAt ports i of
        None \<Rightarrow> []
      | Some port \<Rightarrow>
          if portSyntax port \<noteq> None then [diag PrimitivePortDup (tokLocation nameToken)] else [])"

definition outputDeclStep ::
  "(string \<rightharpoonup> nat) \<Rightarrow> NonAnsiState \<Rightarrow> UdpOutputPortDeclSyntax \<Rightarrow> NonAnsiState" where
  "outputDeclStep portMap st outputDecl =
     (case portMap (valueText (outName outputDecl)) of
        Some i \<Rightarrow>
          if outReg outputDecl \<and> \<not> outKeyword outputDecl
          then st\<lparr>naDiags := naDiags st @
                     (if regSpecifier st \<noteq> None
                      then [diag PrimitiveRegDup (outRegLocation outputDecl)] else []),
                  regSpecifier := Some outputDecl\<rparr>
          else st\<lparr>naDiags := naDiags st @ checkDup (naPorts st) i (outName outputDecl),
                  naPorts := updatePort i
                    (\<lambda>port. port\<lparr>direction := (if outReg outputDecl then OutReg else Out),
                                  portLocation := tokLocation (outName outputDecl),
                                  portSyntax := Some (FromOutputDecl outputDecl)\<rparr>)
                    (naPorts st)\<rparr>
      | None \<Rightarrow>
          st\<lparr>naDiags := naDiags st @
                [diag PrimitivePortUnknown (tokLocation (outName outputDecl))]\<rparr>)"

definition inputNameStep :: "(string \<rightharpoonup> nat) \<Rightarrow> NonAnsiState \<Rightarrow> Token \<Rightarrow> NonAnsiState" where
  "inputNameStep portMap st name =
     (case portMap (valueText name) of
        Some i \<Rightarrow>
          st\<lparr>naDiags := naDiags st @ checkDup (naPorts st) i name,
             naPorts := updatePort i
               (\<lambda>port. port\<lparr>portLocation := tokLocation name,
                             portSyntax := Some (FromIdentifierName name)\<rparr>)
               (naPorts st)\<rparr>
      | None \<Rightarrow> st\<lparr>naDiags := naDiags st @ [diag PrimitivePortUnknown (tokLocation name)]\<rparr>)"

fun inputNameLoop :: "(string \<rightharpoonup> nat) \<Rightarrow> NonAnsiState \<Rightarrow> Token list \<Rightarrow> NonAnsiState" where
  "inputNameLoop portMap st [] = st"
| "inputNameLoop portMap st (name # names) =
     inputNameLoop portMap (inputNameStep portMap st name) names"

fun portDeclStep :: "(string \<rightharpoonup> nat) \<Rightarrow> NonAnsiState \<Rightarrow> UdpPortDeclSyntax \<Rightarrow> NonAnsiState" where
  "portDeclStep portMap st (UdpOutputPortDecl outputDecl) = outputDeclStep portMap st outputDecl"
| "portDeclStep portMap st (UdpInputPortDecl r names) = inputNameLoop portMap st names"

fun portDeclLoop :: "(string \<rightharpoonup> nat) \<Rightarrow> NonAnsiState \<Rightarrow> UdpPortDeclSyntax list \<Rightarrow> NonAnsiState" where
  "portDeclLoop portMap st [] = st"
| "portDeclLoop portMap st (decl # decls) =
     portDeclLoop portMap (portDeclStep portMap st decl) decls"

text \<open>
  The standalone \<^verbatim>\<open>reg\<close> specifier, handled after the declarations. The port map has
  an entry for its name (the source asserts so); the other branches leave the state as it is.
\<close>

definition regSpecifierStep :: "(string \<rightharpoonup> nat) \<Rightarrow> NonAnsiState \<Rightarrow> NonAnsiState" where
  "regSpecifierStep portMap st =
     (case regSpecifier st of
        None \<Rightarrow> st
      | Some spec \<Rightarrow>
          (case portMap (valueText (outName spec)) of
             None \<Rightarrow> st
           | Some i \<Rightarrow>
               (case portAt (naPorts st) i of
                  None \<Rightarrow> st
                | Some port \<Rightarrow>
                    if portSyntax port \<noteq> None then
                      (if direction port = OutReg
                       then st\<lparr>naDiags := naDiags st @ checkDup (naPorts st) i (outName spec)\<rparr>
                       else if direction port = In
                       then st\<lparr>naDiags := naDiags st @
                                  [diag PrimitiveRegInput (tokLocation (outName spec))]\<rparr>
                       else st\<lparr>naPorts := updatePort i (\<lambda>p. p\<lparr>direction := OutReg\<rparr>)
                                             (naPorts st)\<rparr>)
                    else st)))"

definition missingPortDiags :: "PrimitivePortSymbol list \<Rightarrow> Diagnostic list" where
  "missingPortDiags ports =
     map (\<lambda>port. diag PrimitivePortMissing (portLocation port))
       (filter (\<lambda>port. portSyntax port = None) ports)"

definition nonAnsiPorts ::
  "Token list \<Rightarrow> UdpPortDeclSyntax list \<Rightarrow> PrimitivePortSymbol list \<times> Diagnostic list" where
  "nonAnsiPorts names decls =
     (let ports0 = map (\<lambda>name. newPrimitivePortSymbol (valueText name) (tokLocation name) In) names;
          portMap = buildPortMap 0 names Map.empty;
          st = regSpecifierStep portMap
                 (portDeclLoop portMap \<lparr>naPorts = ports0, naDiags = [], regSpecifier = None\<rparr> decls)
      in (naPorts st, naDiags st @ missingPortDiags (naPorts st)))"

subsection \<open>The checks after the port list\<close>

text \<open>
  The initial value: the expression is bound and, when it is not bad, it is kept only if it
  is an integer literal of width 1 or unsized, has a constant after evaluation, and that
  constant is 0, 1 or a one-bit x. The constant of an integer literal is an integer; for
  any other constant the model keeps nothing.
\<close>

definition acceptedInitVal :: "ASTContext \<Rightarrow> Expression \<Rightarrow> ConstantValue option" where
  "acceptedInitVal ctx expr =
     (if exprKind expr = IntegerLiteral \<and> (typeBitWidth expr = 1 \<or> isUnsizedInteger expr)
      then
        (case exprConstant (snd (eval ctx expr)) of
           Some (IntegerValue val) \<Rightarrow>
             if svEquals0 val \<or> svEquals1 val \<or> (svBitWidth val = 1 \<and> svBit0 val = LX)
             then Some (IntegerValue val) else None
         | Some (OtherValue n) \<Rightarrow> None
         | None \<Rightarrow> None)
      else None)"

definition checkInitExpr :: "ASTContext \<Rightarrow> ExpressionSyntax \<Rightarrow> ConstantValue option \<times> Diagnostic list" where
  "checkInitExpr ctx initExpr =
     (if exprBad (bind ctx initExpr) then (None, [])
      else (acceptedInitVal ctx (bind ctx initExpr),
            if acceptedInitVal ctx (bind ctx initExpr) = None
            then [diag PrimitiveInitVal (exprSourceRange (bind ctx initExpr))] else []))"

text \<open>The inline initializer of the first port, read when that port is \<^verbatim>\<open>output reg\<close>.\<close>

definition inlineInitializer :: "PrimitivePortSymbol \<Rightarrow> ExpressionSyntax option" where
  "inlineInitializer port =
     (case portSyntax port of
        Some (FromOutputDecl outSyntax) \<Rightarrow> outInitializer outSyntax
      | Some (FromIdentifierName name) \<Rightarrow> None
      | None \<Rightarrow> None)"

text \<open>The loop that makes sure there is only one output port: it stops at the first hit.\<close>

definition dupOutputDiags :: "PrimitivePortSymbol list \<Rightarrow> Diagnostic list" where
  "dupOutputDiags others =
     (case find (\<lambda>port. direction port \<noteq> In) others of
        Some port \<Rightarrow> [diag PrimitiveDupOutput (portLocation port)]
      | None \<Rightarrow> [])"

text \<open>
  The check of the \<^verbatim>\<open>initial\<close> statement: the initial expression to use afterwards and
  the diagnostics added.
\<close>

definition checkInitialStmt ::
  "bool \<Rightarrow> PrimitivePortSymbol \<Rightarrow> ExpressionSyntax option \<Rightarrow> UdpInitialStmtSyntax option
     \<Rightarrow> ExpressionSyntax option \<times> Diagnostic list" where
  "checkInitialStmt sequential port0 initExpr stmt =
     (case stmt of
        None \<Rightarrow> (initExpr, [])
      | Some initial \<Rightarrow>
          if \<not> sequential then (initExpr, [diag PrimitiveInitialInComb (initialRange initial)])
          else if initExpr \<noteq> None then (initExpr, [diag PrimitiveDupInitial (initialRange initial)])
          else (Some (initialValue initial),
                if valueText (initialName initial) \<noteq> [] \<and> portName port0 \<noteq> []
                     \<and> valueText (initialName initial) \<noteq> portName port0
                then [diag PrimitiveWrongInitial (tokLocation (initialName initial))] else []))"

text \<open>
  The part of the function after the port list: whether the primitive is sequential, its
  initial value and the diagnostics added.
\<close>

definition checkPorts ::
  "ASTContext \<Rightarrow> SourceLocation \<Rightarrow> UdpBodySyntax \<Rightarrow> PrimitivePortSymbol list
     \<Rightarrow> bool \<times> ConstantValue option \<times> Diagnostic list" where
  "checkPorts ctx primLoc body ports =
     (case ports of
        [] \<Rightarrow> (False, None, [diag PrimitiveTwoPorts primLoc])
      | [port0] \<Rightarrow> (False, None, [diag PrimitiveTwoPorts primLoc])
      | port0 # others \<Rightarrow>
          if direction port0 = In then (False, None, [diag PrimitiveOutputFirst (portLocation port0)])
          else
            (let sequential = (direction port0 = OutReg);
                 initExpr0 = (if sequential then inlineInitializer port0 else None);
                 chosen = checkInitialStmt sequential port0 initExpr0 (initialStmt body);
                 checked = (case fst chosen of
                              None \<Rightarrow> (None, [])
                            | Some initExpr \<Rightarrow> checkInitExpr ctx initExpr)
             in (sequential, fst checked, dupOutputDiags others @ snd chosen @ snd checked)))"

definition buildPorts :: "UdpDeclarationSyntax \<Rightarrow> PrimitivePortSymbol list \<times> Diagnostic list" where
  "buildPorts syntax =
     (case portList syntax of
        AnsiUdpPortList decls \<Rightarrow>
          (ansiPorts decls,
           (case portDecls (udpBody syntax) of
              [] \<Rightarrow> []
            | decl # rest \<Rightarrow> [diag PrimitiveAnsiMix (declRange decl)]))
      | NonAnsiUdpPortList names \<Rightarrow> nonAnsiPorts names (portDecls (udpBody syntax))
      | WildcardUdpPortList \<Rightarrow> ([], []))"

text \<open>\<^verbatim>\<open>PrimitiveSymbol::fromSyntax\<close>: the primitive and the diagnostics added to the scope.\<close>

definition PrimitiveSymbol_fromSyntax ::
  "ASTContext \<Rightarrow> UdpDeclarationSyntax \<Rightarrow> PrimitiveSymbol \<times> Diagnostic list" where
  "PrimitiveSymbol_fromSyntax ctx syntax =
     (let built = buildPorts syntax;
          checked = checkPorts ctx (tokLocation (udpName syntax)) (udpBody syntax) (fst built)
      in (\<lparr>primName = valueText (udpName syntax), primLocation = tokLocation (udpName syntax),
           primPorts = fst built, isSequential = fst checked, initVal = fst (snd checked)\<rparr>,
          snd built @ snd (snd checked)))"

text \<open>What the properties speak about: the initial value expression of a primitive.\<close>

definition initialValueExpr :: "PrimitivePortSymbol \<Rightarrow> UdpBodySyntax \<Rightarrow> ExpressionSyntax option" where
  "initialValueExpr port0 body =
     (case inlineInitializer port0 of
        Some e \<Rightarrow> Some e
      | None \<Rightarrow> map_option initialValue (initialStmt body))"

definition firstPortDirection :: "PrimitiveSymbol \<Rightarrow> PrimitivePortDirection option" where
  "firstPortDirection prim = map_option direction (firstOf (primPorts prim))"

text \<open>
  Invariants of the port list phase: the codes of the diagnostics it can add, and the type of
  every port.
\<close>

definition portListCode :: "DiagCode \<Rightarrow> bool" where
  "portListCode c = (c = PrimitiveAnsiMix \<or> c = PrimitivePortDup \<or> c = PrimitiveRegDup
     \<or> c = PrimitivePortUnknown \<or> c = PrimitiveRegInput \<or> c = PrimitivePortMissing)"

definition portDiagsOk :: "Diagnostic list \<Rightarrow> bool" where
  "portDiagsOk ds = list_all (\<lambda>d. portListCode (code d)) ds"

definition logicPorts :: "PrimitivePortSymbol list \<Rightarrow> bool" where
  "logicPorts ports = list_all (\<lambda>p. portType p = LogicType) ports"

text \<open>
  A context and primitives used to evaluate the functions above. The binder reads an
  expression syntax of kind 0, 1, 2, 3 as the literals \<^verbatim>\<open>1'b0\<close>, \<^verbatim>\<open>1'b1\<close>,
  \<^verbatim>\<open>1'bx\<close>, \<^verbatim>\<open>2'b01\<close>, with their constants known, and anything else as a bad
  expression.
\<close>

definition demo_udpLiteral :: "nat \<Rightarrow> SourceLocation \<Rightarrow> Expression" where
  "demo_udpLiteral k l =
     (if k = 0 then
        \<lparr>exprKind = IntegerLiteral, exprBad = False, typeBitWidth = 1, isUnsizedInteger = False,
         exprSourceRange = l,
         exprConstant = Some (IntegerValue \<lparr>svBitWidth = 1, svBit0 = L0, svEquals0 = True, svEquals1 = False\<rparr>)\<rparr>
      else if k = 1 then
        \<lparr>exprKind = IntegerLiteral, exprBad = False, typeBitWidth = 1, isUnsizedInteger = False,
         exprSourceRange = l,
         exprConstant = Some (IntegerValue \<lparr>svBitWidth = 1, svBit0 = L1, svEquals0 = False, svEquals1 = True\<rparr>)\<rparr>
      else if k = 2 then
        \<lparr>exprKind = IntegerLiteral, exprBad = False, typeBitWidth = 1, isUnsizedInteger = False,
         exprSourceRange = l,
         exprConstant = Some (IntegerValue \<lparr>svBitWidth = 1, svBit0 = LX, svEquals0 = False, svEquals1 = False\<rparr>)\<rparr>
      else if k = 3 then
        \<lparr>exprKind = IntegerLiteral, exprBad = False, typeBitWidth = 2, isUnsizedInteger = False,
         exprSourceRange = l,
         exprConstant = Some (IntegerValue \<lparr>svBitWidth = 2, svBit0 = L1, svEquals0 = False, svEquals1 = True\<rparr>)\<rparr>
      else
        \<lparr>exprKind = Invalid, exprBad = True, typeBitWidth = 0, isUnsizedInteger = False,
         exprSourceRange = l, exprConstant = None\<rparr>)"

definition demo_udpContext :: ASTContext where
  "demo_udpContext =
     demo_context\<lparr>bind := (\<lambda>s. case s of OtherExpression k l es \<Rightarrow> demo_udpLiteral k l
                                | _ \<Rightarrow> demo_udpLiteral 4 (firstTokenLocation s))\<rparr>"

text \<open>
  \<^verbatim>\<open>primitive p(q, a); input a; output reg q; initial q = 1'bx; ... endprimitive\<close>
\<close>

definition demo_sequentialUdp :: UdpDeclarationSyntax where
  "demo_sequentialUdp =
     \<lparr>udpName = Token ''p'' 10,
      portList = NonAnsiUdpPortList [Token ''q'' 12, Token ''a'' 15],
      udpBody =
        \<lparr>portDecls =
           [UdpInputPortDecl 20 [Token ''a'' 26],
            UdpOutputPortDecl \<lparr>outKeyword = True, outReg = True, outRegLocation = 36,
                               outName = Token ''q'' 40, outInitializer = None, outRange = 29\<rparr>],
         initialStmt = Some \<lparr>initialName = Token ''q'' 51,
                             initialValue = OtherExpression 2 55 [], initialRange = 43\<rparr>\<rparr>\<rparr>"

text \<open>\<^verbatim>\<open>primitive p(output reg q = 1'b1); ... endprimitive\<close>: one port only.\<close>

definition demo_onePortUdp :: UdpDeclarationSyntax where
  "demo_onePortUdp =
     \<lparr>udpName = Token ''p'' 10,
      portList = AnsiUdpPortList
        [UdpOutputPortDecl \<lparr>outKeyword = True, outReg = True, outRegLocation = 19,
                            outName = Token ''q'' 23, outInitializer = Some (OtherExpression 1 27 []),
                            outRange = 12\<rparr>],
      udpBody = \<lparr>portDecls = [], initialStmt = None\<rparr>\<rparr>"

text \<open>\<^verbatim>\<open>primitive p(output reg q = 2'b01, input a); ... endprimitive\<close>\<close>

definition demo_wideInitUdp :: UdpDeclarationSyntax where
  "demo_wideInitUdp =
     \<lparr>udpName = Token ''p'' 10,
      portList = AnsiUdpPortList
        [UdpOutputPortDecl \<lparr>outKeyword = True, outReg = True, outRegLocation = 19,
                            outName = Token ''q'' 23, outInitializer = Some (OtherExpression 3 27 []),
                            outRange = 12\<rparr>,
         UdpInputPortDecl 34 [Token ''a'' 40]],
      udpBody = \<lparr>portDecls = [], initialStmt = None\<rparr>\<rparr>"

text \<open>
  \<^verbatim>\<open>primitive p(output reg q = undeclared, input a); ... endprimitive\<close>: the initializer
  binds to a bad expression.
\<close>

definition demo_badInitUdp :: UdpDeclarationSyntax where
  "demo_badInitUdp =
     \<lparr>udpName = Token ''p'' 10,
      portList = AnsiUdpPortList
        [UdpOutputPortDecl \<lparr>outKeyword = True, outReg = True, outRegLocation = 19,
                            outName = Token ''q'' 23, outInitializer = Some (OtherExpression 9 27 []),
                            outRange = 12\<rparr>,
         UdpInputPortDecl 39 [Token ''a'' 45]],
      udpBody = \<lparr>portDecls = [], initialStmt = None\<rparr>\<rparr>"

text \<open>\<^verbatim>\<open>primitive p(output q, input a); initial q = 1'b0; ... endprimitive\<close>\<close>

definition demo_combinationalUdp :: UdpDeclarationSyntax where
  "demo_combinationalUdp =
     \<lparr>udpName = Token ''p'' 10,
      portList = AnsiUdpPortList
        [UdpOutputPortDecl \<lparr>outKeyword = True, outReg = False, outRegLocation = 0,
                            outName = Token ''q'' 19, outInitializer = None, outRange = 12\<rparr>,
         UdpInputPortDecl 22 [Token ''a'' 28]],
      udpBody = \<lparr>portDecls = [],
                 initialStmt = Some \<lparr>initialName = Token ''q'' 40,
                                     initialValue = OtherExpression 0 44 [], initialRange = 32\<rparr>\<rparr>\<rparr>"

text \<open>\<^verbatim>\<open>primitive p(.*); ... endprimitive\<close>\<close>

definition demo_wildcardUdp :: UdpDeclarationSyntax where
  "demo_wildcardUdp =
     \<lparr>udpName = Token ''p'' 10, portList = WildcardUdpPortList,
      udpBody = \<lparr>portDecls = [UdpInputPortDecl 20 [Token ''a'' 26]], initialStmt = None\<rparr>\<rparr>"

section \<open>Scopes, nets and continuous assignments\<close>

text \<open>
  The members of a scope: nets, continuous assigns, transparent members (which wrap another
  symbol and take its name) and any other symbol, kept as its name and a number.
\<close>

datatype Symbol =
    NetSym NetSymbol
  | ContinuousAssignSym ContinuousAssignSymbol
  | TransparentMemberSym Symbol
  | OtherSym string nat

fun symbolName :: "Symbol \<Rightarrow> string" where
  "symbolName (NetSym net) = netName net"
| "symbolName (ContinuousAssignSym cas) = []"
| "symbolName (TransparentMemberSym wrapped) = symbolName wrapped"
| "symbolName (OtherSym name n) = name"

fun unwrapTransparent :: "Symbol \<Rightarrow> Symbol" where
  "unwrapTransparent (TransparentMemberSym wrapped) = unwrapTransparent wrapped"
| "unwrapTransparent (NetSym net) = NetSym net"
| "unwrapTransparent (ContinuousAssignSym cas) = ContinuousAssignSym cas"
| "unwrapTransparent (OtherSym name n) = OtherSym name n"


subsection \<open>\<^verbatim>\<open>NetSymbol\<close>: constructor, \<^verbatim>\<open>fromSyntax\<close>, \<^verbatim>\<open>createImplicit\<close>\<close>

definition newNetSymbol :: "string \<Rightarrow> SourceLocation \<Rightarrow> NetType \<Rightarrow> NetSymbol" where
  "newNetSymbol name l nt =
     \<lparr>netName = name, netLocation = l, netType = nt, netResolvedType = None,
      flagInterconnectNet = (netKind nt = Interconnect), isImplicit = False,
      expansionHint = NoHint, netHasParentScope = False, netSyntax = None, delay = None\<rparr>"




definition NetSymbol_createImplicit :: "Token \<Rightarrow> NetType \<Rightarrow> NetSymbol" where
  "NetSymbol_createImplicit t nt =
     (newNetSymbol (valueText t) (tokLocation t) nt)
       \<lparr>netResolvedType := Some LogicType, isImplicit := True,
        netSyntax := Some (Some OtherSyntaxParent)\<rparr>"

subsection \<open>\<^verbatim>\<open>ContinuousAssignSymbol::fromSyntax\<close>\<close>

text \<open>Modelled from the spec: the source of \<^verbatim>\<open>NetType::isError\<close> is missing. The
  default net type \<^verbatim>\<open>none\<close> is the error net type, of kind \<^verbatim>\<open>Unknown\<close>.
\<close>

definition NetType_isError :: "NetType \<Rightarrow> bool" where
  "NetType_isError nt = (netKind nt = Unknown)"

text \<open>Modelled from the spec: the source of \<^verbatim>\<open>Expression::findPotentiallyImplicitNets\<close>
  is missing. The spec says that it yields each bare identifier of the left-hand side
  that is not already resolved: the identifiers of the expression that are not part of a
  scoped name, in source order, that the lookup does not find.
\<close>

fun bareIdentifiers :: "ExpressionSyntax \<Rightarrow> Token list" where
  "bareIdentifiers (IdentifierName t) = [t]"
| "bareIdentifiers (ScopedName l r) = []"
| "bareIdentifiers (AssignmentExpression l r) = bareIdentifiers l @ bareIdentifiers r"
| "bareIdentifiers (OtherExpression k l es) = concat (map bareIdentifiers es)"

text \<open>Modelled from the spec: the bare identifiers of an expression that are not already
  resolved.
\<close>

definition findPotentiallyImplicitNets ::
  "(string \<Rightarrow> Symbol option) \<Rightarrow> ExpressionSyntax \<Rightarrow> Token list" where
  "findPotentiallyImplicitNets lookup expr =
     filter (\<lambda>t. lookup (valueText t) = None) (bareIdentifiers expr)"


text \<open>The implicit nets that one expression of the assignment list contributes.\<close>

definition implicitNetsOf ::
  "NetType \<Rightarrow> (string \<Rightarrow> Symbol option) \<Rightarrow> ExpressionSyntax \<Rightarrow> NetSymbol list" where
  "implicitNetsOf nt lookup expr =
     (if \<not> NetType_isError nt then
        (case expr of
           AssignmentExpression left right \<Rightarrow>
             map (\<lambda>ins. NetSymbol_createImplicit ins nt) (findPotentiallyImplicitNets lookup left)
         | IdentifierName t \<Rightarrow> []
         | ScopedName l r \<Rightarrow> []
         | OtherExpression k l es \<Rightarrow> [])
      else [])"



subsection \<open>Adding members to a scope\<close>
















section \<open>Anonymous programs: \<^verbatim>\<open>AnonymousProgramSymbol::fromSyntax\<close>\<close>












section \<open>Properties of clocking block declarations\<close>

lemma diagsWith_simps:
  "diagsWith c [] = []"
  "diagsWith c (xs @ ys) = diagsWith c xs @ diagsWith c ys"
  "diagsWith c (d # ds) = (if code d = c then d # diagsWith c ds else diagsWith c ds)"
  by (simp_all add: diagsWith_def)

lemma stepInputSkew_simps:
  "inputSkew (stepInputSkew i st) = (case inputSkew st of Some p \<Rightarrow> Some p | None \<Rightarrow> i)"
  "outputSkew (stepInputSkew i st) = outputSkew st"
  "loopMembers (stepInputSkew i st) = loopMembers st"
  "loopDiags (stepInputSkew i st) =
     loopDiags st @ (case (i, inputSkew st) of (Some s, Some p) \<Rightarrow> [diag MultipleDefaultInputSkew (skewRange s)] | _ \<Rightarrow> [])"
  by (simp_all add: stepInputSkew_def split: option.splits)

lemma stepOutputSkew_simps:
  "outputSkew (stepOutputSkew i st) = (case outputSkew st of Some p \<Rightarrow> Some p | None \<Rightarrow> i)"
  "inputSkew (stepOutputSkew i st) = inputSkew st"
  "loopMembers (stepOutputSkew i st) = loopMembers st"
  "loopDiags (stepOutputSkew i st) =
     loopDiags st @ (case (i, outputSkew st) of (Some s, Some p) \<Rightarrow> [diag MultipleDefaultOutputSkew (skewRange s)] | _ \<Rightarrow> [])"
  by (simp_all add: stepOutputSkew_def split: option.splits)

lemma loop_inputSkew:
  "inputSkew (clockingItemLoop st items) =
     (case inputSkew st of Some p \<Rightarrow> Some p | None \<Rightarrow> firstOf (inputSkewsOf items))"
proof (induction items arbitrary: st)
  case Nil
  then show ?case by (simp add: firstOf_def split: option.splits)
next
  case (Cons item items)
  show ?case
  proof (cases item)
    case (DefaultSkewItem i out)
    then show ?thesis
      by (cases i) (simp_all add: Cons.IH stepInputSkew_simps stepOutputSkew_simps firstOf_def split: option.splits)
  next
    case (OtherClockingItem n)
    then show ?thesis by (simp add: Cons.IH split: option.splits)
  qed
qed

lemma loop_outputSkew:
  "outputSkew (clockingItemLoop st items) =
     (case outputSkew st of Some p \<Rightarrow> Some p | None \<Rightarrow> firstOf (outputSkewsOf items))"
proof (induction items arbitrary: st)
  case Nil
  then show ?case by (simp add: firstOf_def split: option.splits)
next
  case (Cons item items)
  show ?case
  proof (cases item)
    case (DefaultSkewItem i out)
    then show ?thesis
      by (cases out) (simp_all add: Cons.IH stepInputSkew_simps stepOutputSkew_simps firstOf_def split: option.splits)
  next
    case (OtherClockingItem n)
    then show ?thesis by (simp add: Cons.IH split: option.splits)
  qed
qed

lemma loop_members:
  "loopMembers (clockingItemLoop st items) = loopMembers st @ filter (\<lambda>i. \<not> isDefaultSkewItem i) items"
proof (induction items arbitrary: st)
  case Nil
  then show ?case by simp
next
  case (Cons item items)
  then show ?case
    by (cases item) (simp_all add: stepInputSkew_simps stepOutputSkew_simps)
qed

lemma loop_diags_input:
  "diagsWith MultipleDefaultInputSkew (loopDiags (clockingItemLoop st items)) =
     diagsWith MultipleDefaultInputSkew (loopDiags st) @
     map (\<lambda>s. diag MultipleDefaultInputSkew (skewRange s))
       (case inputSkew st of Some p \<Rightarrow> inputSkewsOf items | None \<Rightarrow> drop 1 (inputSkewsOf items))"
proof (induction items arbitrary: st)
  case Nil
  then show ?case by (simp split: option.splits)
next
  case (Cons item items)
  show ?case
  proof (cases item)
    case (DefaultSkewItem i out)
    then show ?thesis
      by (cases i; cases out)
         (simp_all add: Cons.IH stepInputSkew_simps stepOutputSkew_simps diagsWith_simps split: option.splits)
  next
    case (OtherClockingItem n)
    then show ?thesis by (simp add: Cons.IH split: option.splits)
  qed
qed

lemma loop_diags_output:
  "diagsWith MultipleDefaultOutputSkew (loopDiags (clockingItemLoop st items)) =
     diagsWith MultipleDefaultOutputSkew (loopDiags st) @
     map (\<lambda>s. diag MultipleDefaultOutputSkew (skewRange s))
       (case outputSkew st of Some p \<Rightarrow> outputSkewsOf items | None \<Rightarrow> drop 1 (outputSkewsOf items))"
proof (induction items arbitrary: st)
  case Nil
  then show ?case by (simp split: option.splits)
next
  case (Cons item items)
  show ?case
  proof (cases item)
    case (DefaultSkewItem i out)
    then show ?thesis
      by (cases i; cases out)
         (simp_all add: Cons.IH stepInputSkew_simps stepOutputSkew_simps diagsWith_simps split: option.splits)
  next
    case (OtherClockingItem n)
    then show ?thesis by (simp add: Cons.IH split: option.splits)
  qed
qed

text \<open>
  Claim C7. In a clocking block declaration the recorded default input skew is the one of the
  first default-skew item that gives an input skew, and every later item that gives an input
  skew is diagnosed with \<^verbatim>\<open>MultipleDefaultInputSkew\<close> at that skew and leaves the
  recorded one unchanged; the same holds for output skews with
  \<^verbatim>\<open>MultipleDefaultOutputSkew\<close>. Each of the two fields holds at most one skew. The
  items that are not default-skew items are exactly the ones added to the block's scope, in
  source order.
\<close>

theorem clocking_default_skews:
  "inputSkewSyntax (fst (ClockingBlockSymbol_fromSyntax g syntax)) = firstOf (inputSkewsOf (clockingItems syntax))
   \<and> outputSkewSyntax (fst (ClockingBlockSymbol_fromSyntax g syntax)) = firstOf (outputSkewsOf (clockingItems syntax))
   \<and> diagsWith MultipleDefaultInputSkew (snd (ClockingBlockSymbol_fromSyntax g syntax)) =
       map (\<lambda>s. diag MultipleDefaultInputSkew (skewRange s)) (drop 1 (inputSkewsOf (clockingItems syntax)))
   \<and> diagsWith MultipleDefaultOutputSkew (snd (ClockingBlockSymbol_fromSyntax g syntax)) =
       map (\<lambda>s. diag MultipleDefaultOutputSkew (skewRange s)) (drop 1 (outputSkewsOf (clockingItems syntax)))
   \<and> addedMembers (fst (ClockingBlockSymbol_fromSyntax g syntax)) =
       filter (\<lambda>i. \<not> isDefaultSkewItem i) (clockingItems syntax)"
  by (simp add: ClockingBlockSymbol_fromSyntax_def Let_def loop_inputSkew loop_outputSkew
        loop_members loop_diags_input loop_diags_output diagsWith_simps)

section \<open>Properties of the lazily computed fields\<close>

lemma getAssignment_fills:
  "getAssignment b cas = Some (e, cas') \<Longrightarrow> assign cas' = Some e"
  by (auto simp: getAssignment_def split: option.splits if_splits)

lemma getAssignmentCalls_cached:
  "assign cas = Some e \<Longrightarrow> getAssignmentCalls bs cas = Some (replicate (length bs) e, cas)"
  by (induction bs) (simp_all add: getAssignment_def)

lemma getDelay_fills:
  "NetSymbol_getDelay b net = (d, net') \<Longrightarrow> delay net' = Some d"
  by (auto simp: NetSymbol_getDelay_def
      split: option.splits if_splits SyntaxParent.splits DataTypeSyntax.splits NameSyntax.splits)

lemma getDelayCalls_cached:
  "delay net = Some d \<Longrightarrow> getDelayCalls bs net = (replicate (length bs) d, net)"
  by (induction bs) (simp_all add: NetSymbol_getDelay_def)

text \<open>
  Claim C8. The lazily computed fields are memoized. Once a call of \<^verbatim>\<open>getAssignment\<close> on
  a continuous-assign symbol has returned an expression, every later call, in whatever
  context, returns that same expression and leaves the symbol unchanged; the first call on a
  symbol with an empty cache binds the symbol's syntax and stores the result (a symbol
  constructed with its assignment already bound returns that one from the first call on).
  Likewise, after one call of a net symbol's \<^verbatim>\<open>getDelay\<close>, every later call returns
  the value that the first call computed.
\<close>

theorem lazy_fields_memoized:
  "(getAssignment b cas = Some (e, cas') \<longrightarrow>
      getAssignmentCalls bs cas' = Some (replicate (length bs) e, cas'))
   \<and> (assign cas = None \<and> casSyntax cas = Some syntax \<and> casHasParentScope cas \<longrightarrow>
      getAssignment b cas = Some (b syntax, cas\<lparr>assign := Some (b syntax)\<rparr>))
   \<and> (NetSymbol_getDelay db net = (d, net') \<longrightarrow>
      getDelayCalls dbs net' = (replicate (length dbs) d, net'))
   \<and> getAssignmentCalls bs (newBoundContinuousAssignSymbol l given) =
       Some (replicate (length bs) given, newBoundContinuousAssignSymbol l given)"
proof (intro conjI impI)
  assume "getAssignment b cas = Some (e, cas')"
  then have "assign cas' = Some e" by (rule getAssignment_fills)
  then show "getAssignmentCalls bs cas' = Some (replicate (length bs) e, cas')"
    by (rule getAssignmentCalls_cached)
next
  assume "assign cas = None \<and> casSyntax cas = Some syntax \<and> casHasParentScope cas"
  then show "getAssignment b cas = Some (b syntax, cas\<lparr>assign := Some (b syntax)\<rparr>)"
    by (simp add: getAssignment_def)
next
  assume "NetSymbol_getDelay db net = (d, net')"
  then have "delay net' = Some d" by (rule getDelay_fills)
  then show "getDelayCalls dbs net' = (replicate (length dbs) d, net')"
    by (rule getDelayCalls_cached)
next
  show "getAssignmentCalls bs (newBoundContinuousAssignSymbol l given) =
       Some (replicate (length bs) given, newBoundContinuousAssignSymbol l given)"
    by (rule getAssignmentCalls_cached) (simp add: newBoundContinuousAssignSymbol_def)
qed

theorem lazy_fields_memoized_witness:
  "getAssignment demo_bindA demo_assignFoo =
      Some (demo_bindA demo_fooSyntax, demo_assignFoo\<lparr>assign := Some (demo_bindA demo_fooSyntax)\<rparr>)
   \<and> getAssignmentCalls [demo_bindB, demo_bindA]
        (demo_assignFoo\<lparr>assign := Some (demo_bindA demo_fooSyntax)\<rparr>) =
      Some ([demo_bindA demo_fooSyntax, demo_bindA demo_fooSyntax],
            demo_assignFoo\<lparr>assign := Some (demo_bindA demo_fooSyntax)\<rparr>)
   \<and> NetSymbol_getDelay demo_delayBindersA demo_delayedNet =
        (Some (BoundDelay 7), demo_delayedNet\<lparr>delay := Some (Some (BoundDelay 7))\<rparr>)
   \<and> getDelayCalls [demo_delayBindersB, demo_delayBindersA]
        (demo_delayedNet\<lparr>delay := Some (Some (BoundDelay 7))\<rparr>) =
        ([Some (BoundDelay 7), Some (BoundDelay 7)],
         demo_delayedNet\<lparr>delay := Some (Some (BoundDelay 7))\<rparr>)"
proof -
  have a: "getAssignment demo_bindA demo_assignFoo =
      Some (demo_bindA demo_fooSyntax, demo_assignFoo\<lparr>assign := Some (demo_bindA demo_fooSyntax)\<rparr>)"
    by (simp add: getAssignment_def demo_assignFoo_def newContinuousAssignSymbol_def)
  have d: "NetSymbol_getDelay demo_delayBindersA demo_delayedNet =
        (Some (BoundDelay 7), demo_delayedNet\<lparr>delay := Some (Some (BoundDelay 7))\<rparr>)"
    by (simp add: NetSymbol_getDelay_def demo_delayedNet_def demo_delayBindersA_def)
  show ?thesis
    using a d
      lazy_fields_memoized [of demo_bindA demo_assignFoo "demo_bindA demo_fooSyntax"
        "demo_assignFoo\<lparr>assign := Some (demo_bindA demo_fooSyntax)\<rparr>"
        "[demo_bindB, demo_bindA]" demo_fooSyntax
        demo_delayBindersA demo_delayedNet "Some (BoundDelay 7)"
        "demo_delayedNet\<lparr>delay := Some (Some (BoundDelay 7))\<rparr>"
        "[demo_delayBindersB, demo_delayBindersA]"]
    by simp
qed

section \<open>Properties of anonymous programs\<close>


lemma unwrap_in_map: "x \<in> set xs \<Longrightarrow> unwrapTransparent x \<in> set (map unwrapTransparent xs)"
  by simp


lemma symbolName_transparent_map:
  "map symbolName (map TransparentMemberSym ms) = map symbolName ms"
  by (induction ms) simp_all





section \<open>Properties of continuous assignments and implicit nets\<close>





lemma implicitNetsOf_disabled:
  "NetType_isError nt \<Longrightarrow> implicitNetsOf nt lookup e = []"
  by (simp add: implicitNetsOf_def)








section \<open>Properties of the elaboration system tasks\<close>














section \<open>Properties of user-defined primitives\<close>

lemma portDiagsOk_simps:
  "portDiagsOk []"
  "portDiagsOk (xs @ ys) = (portDiagsOk xs \<and> portDiagsOk ys)"
  "portDiagsOk (d # ds) = (portListCode (code d) \<and> portDiagsOk ds)"
  by (simp_all add: portDiagsOk_def)

lemma checkDup_ok: "portDiagsOk (checkDup ports i t)"
  by (simp add: checkDup_def portDiagsOk_simps portListCode_def split: option.splits)

lemma updatePort_logic:
  assumes "logicPorts ports" and "\<And>p. portType (f p) = portType p"
  shows "logicPorts (updatePort i f ports)"
proof (cases "i < length ports")
  case True
  have "portType (f (ports ! i)) = LogicType"
    using assms True by (simp add: logicPorts_def list_all_length)
  with assms(1) True show ?thesis
    by (simp add: updatePort_def logicPorts_def list_all_length nth_list_update)
next
  case False
  with assms(1) show ?thesis by (simp add: updatePort_def)
qed

lemma outputDeclStep_inv:
  assumes "portDiagsOk (naDiags st)" and "logicPorts (naPorts st)"
  shows "portDiagsOk (naDiags (outputDeclStep m st d)) \<and> logicPorts (naPorts (outputDeclStep m st d))"
  using assms
  by (auto simp: outputDeclStep_def portDiagsOk_simps checkDup_ok portListCode_def
      intro!: updatePort_logic split: option.splits)

lemma inputNameStep_inv:
  assumes "portDiagsOk (naDiags st)" and "logicPorts (naPorts st)"
  shows "portDiagsOk (naDiags (inputNameStep m st n)) \<and> logicPorts (naPorts (inputNameStep m st n))"
  using assms
  by (auto simp: inputNameStep_def portDiagsOk_simps checkDup_ok portListCode_def
      intro!: updatePort_logic split: option.splits)

lemma inputNameLoop_inv:
  "portDiagsOk (naDiags st) \<Longrightarrow> logicPorts (naPorts st) \<Longrightarrow>
   portDiagsOk (naDiags (inputNameLoop m st ns)) \<and> logicPorts (naPorts (inputNameLoop m st ns))"
proof (induction ns arbitrary: st)
  case Nil
  then show ?case by simp
next
  case (Cons n ns)
  then show ?case using inputNameStep_inv [of st m n] by simp
qed

lemma portDeclStep_inv:
  "portDiagsOk (naDiags st) \<Longrightarrow> logicPorts (naPorts st) \<Longrightarrow>
   portDiagsOk (naDiags (portDeclStep m st d)) \<and> logicPorts (naPorts (portDeclStep m st d))"
  by (cases d) (simp_all add: outputDeclStep_inv inputNameLoop_inv)

lemma portDeclLoop_inv:
  "portDiagsOk (naDiags st) \<Longrightarrow> logicPorts (naPorts st) \<Longrightarrow>
   portDiagsOk (naDiags (portDeclLoop m st ds)) \<and> logicPorts (naPorts (portDeclLoop m st ds))"
proof (induction ds arbitrary: st)
  case Nil
  then show ?case by simp
next
  case (Cons d ds)
  then show ?case using portDeclStep_inv [of st m d] by simp
qed

lemma regSpecifierStep_inv:
  assumes "portDiagsOk (naDiags st)" and "logicPorts (naPorts st)"
  shows "portDiagsOk (naDiags (regSpecifierStep m st)) \<and> logicPorts (naPorts (regSpecifierStep m st))"
  using assms
  by (auto simp: regSpecifierStep_def portDiagsOk_simps checkDup_ok portListCode_def
      intro!: updatePort_logic split: option.splits)

lemma missingPortDiags_ok: "portDiagsOk (missingPortDiags ports)"
  by (induction ports) (simp_all add: missingPortDiags_def portDiagsOk_simps portListCode_def)

lemma nonAnsiPorts_inv:
  "portDiagsOk (snd (nonAnsiPorts names decls)) \<and> logicPorts (fst (nonAnsiPorts names decls))"
proof -
  let ?st0 = "\<lparr>naPorts = map (\<lambda>name. newPrimitivePortSymbol (valueText name) (tokLocation name) In) names,
               naDiags = [], regSpecifier = None\<rparr>"
  have l0: "logicPorts (naPorts ?st0)"
    by (induction names) (simp_all add: logicPorts_def newPrimitivePortSymbol_def)
  have d0: "portDiagsOk (naDiags ?st0)" by (simp add: portDiagsOk_simps)
  have 1: "portDiagsOk (naDiags (portDeclLoop (buildPortMap 0 names Map.empty) ?st0 decls))
     \<and> logicPorts (naPorts (portDeclLoop (buildPortMap 0 names Map.empty) ?st0 decls))"
    using portDeclLoop_inv [OF d0 l0] by simp
  then have 2: "portDiagsOk (naDiags (regSpecifierStep (buildPortMap 0 names Map.empty)
        (portDeclLoop (buildPortMap 0 names Map.empty) ?st0 decls)))
     \<and> logicPorts (naPorts (regSpecifierStep (buildPortMap 0 names Map.empty)
        (portDeclLoop (buildPortMap 0 names Map.empty) ?st0 decls)))"
    using regSpecifierStep_inv by blast
  then show ?thesis
    by (simp add: nonAnsiPorts_def Let_def portDiagsOk_simps missingPortDiags_ok)
qed

lemma ansiPorts_logic: "logicPorts (ansiPorts decls)"
  by (induction decls rule: ansiPorts.induct)
     (auto simp: logicPorts_def newPrimitivePortSymbol_def list_all_iff)

lemma buildPorts_inv:
  "portDiagsOk (snd (buildPorts syntax)) \<and> logicPorts (fst (buildPorts syntax))"
proof (cases "portList syntax")
  case (AnsiUdpPortList decls)
  then show ?thesis
    by (simp add: buildPorts_def ansiPorts_logic portDiagsOk_simps portListCode_def split: list.splits)
next
  case (NonAnsiUdpPortList names)
  then show ?thesis by (simp add: buildPorts_def nonAnsiPorts_inv)
next
  case WildcardUdpPortList
  then show ?thesis by (simp add: buildPorts_def portDiagsOk_simps logicPorts_def)
qed

lemma diagsWith_portDiags:
  "portDiagsOk ds \<Longrightarrow> \<not> portListCode c \<Longrightarrow> diagsWith c ds = []"
  by (induction ds) (auto simp: portDiagsOk_simps diagsWith_simps)

text \<open>
  Claim C9. Every primitive port symbol has the single-bit logic type from its construction
  on, whatever its direction: the constructor sets it, and every port of a primitive built
  by \<^verbatim>\<open>PrimitiveSymbol::fromSyntax\<close>, from an ANSI or a non-ANSI port list, has it (the
  later updates of direction, location and syntax leave the type alone).
\<close>

theorem primitive_ports_are_logic:
  "portType (newPrimitivePortSymbol name l dir) = LogicType
   \<and> (\<forall>port\<in>set (primPorts (fst (PrimitiveSymbol_fromSyntax ctx syntax))). portType port = LogicType)"
  using buildPorts_inv [of "syntax"]
  by (simp add: newPrimitivePortSymbol_def PrimitiveSymbol_fromSyntax_def Let_def logicPorts_def
        list_all_iff)

theorem primitive_ports_are_logic_witness:
  "map portType (primPorts (fst (PrimitiveSymbol_fromSyntax demo_udpContext demo_sequentialUdp))) =
     [LogicType, LogicType]
   \<and> map direction (primPorts (fst (PrimitiveSymbol_fromSyntax demo_udpContext demo_sequentialUdp))) =
     [OutReg, In]
   \<and> map portType (primPorts (fst (PrimitiveSymbol_fromSyntax demo_udpContext demo_combinationalUdp))) =
     [LogicType, LogicType]
   \<and> map direction (primPorts (fst (PrimitiveSymbol_fromSyntax demo_udpContext demo_combinationalUdp))) =
     [Out, In]"
  using primitive_ports_are_logic [of "''q''" 40 OutReg demo_udpContext demo_sequentialUdp]
    primitive_ports_are_logic [of "''q''" 19 Out demo_udpContext demo_combinationalUdp]
  by (simp add: demo_sequentialUdp_def demo_combinationalUdp_def
        PrimitiveSymbol_fromSyntax_def buildPorts_def nonAnsiPorts_def
        regSpecifierStep_def outputDeclStep_def inputNameStep_def checkDup_def portAt_def
        updatePort_def newPrimitivePortSymbol_def Let_def)

lemma acceptedInitVal_iff:
  "(acceptedInitVal ctx expr = Some cv) =
     (exprKind expr = IntegerLiteral \<and> (typeBitWidth expr = 1 \<or> isUnsizedInteger expr)
      \<and> (\<exists>val. exprConstant (snd (eval ctx expr)) = Some (IntegerValue val) \<and> cv = IntegerValue val
            \<and> (svEquals0 val \<or> svEquals1 val \<or> (svBitWidth val = 1 \<and> svBit0 val = LX))))"
  by (auto simp: acceptedInitVal_def split: option.splits ConstantValue.splits)

lemma dupOutputDiags_codes:
  "c \<noteq> PrimitiveDupOutput \<Longrightarrow> diagsWith c (dupOutputDiags others) = []"
  by (simp add: dupOutputDiags_def diagsWith_simps split: option.splits)

lemma checkInitialStmt_sequential:
  "fst (checkInitialStmt True port0 (inlineInitializer port0) (initialStmt body)) =
     initialValueExpr port0 body"
  "diagsWith PrimitiveInitVal
     (snd (checkInitialStmt True port0 (inlineInitializer port0) (initialStmt body))) = []"
  by (simp_all add: checkInitialStmt_def initialValueExpr_def diagsWith_simps split: option.splits)

lemma checkInitialStmt_combinational:
  "fst (checkInitialStmt False port0 None stmt) = None"
  "diagsWith PrimitiveInitialInComb (snd (checkInitialStmt False port0 None stmt)) =
     (case stmt of None \<Rightarrow> [] | Some initial \<Rightarrow> [diag PrimitiveInitialInComb (initialRange initial)])"
  by (simp_all add: checkInitialStmt_def diagsWith_simps split: option.splits)

lemma checkInitExpr_simps:
  "fst (checkInitExpr ctx e) = (if exprBad (bind ctx e) then None else acceptedInitVal ctx (bind ctx e))"
  "diagsWith PrimitiveInitVal (snd (checkInitExpr ctx e)) =
     (if exprBad (bind ctx e) \<or> acceptedInitVal ctx (bind ctx e) \<noteq> None then []
      else [diag PrimitiveInitVal (exprSourceRange (bind ctx e))])"
  by (simp_all add: checkInitExpr_def diagsWith_simps)

lemma checkPorts_sequential:
  assumes "direction port0 = OutReg"
  shows "fst (checkPorts ctx l body (port0 # port1 # others))"
    and "fst (snd (checkPorts ctx l body (port0 # port1 # others))) =
       (case initialValueExpr port0 body of
          None \<Rightarrow> None
        | Some e \<Rightarrow> if exprBad (bind ctx e) then None else acceptedInitVal ctx (bind ctx e))"
    and "diagsWith PrimitiveInitVal (snd (snd (checkPorts ctx l body (port0 # port1 # others)))) =
       (case initialValueExpr port0 body of
          None \<Rightarrow> []
        | Some e \<Rightarrow> if exprBad (bind ctx e) \<or> acceptedInitVal ctx (bind ctx e) \<noteq> None then []
                    else [diag PrimitiveInitVal (exprSourceRange (bind ctx e))])"
  using assms
  by (simp_all add: checkPorts_def Let_def checkInitialStmt_sequential checkInitExpr_simps
        diagsWith_simps dupOutputDiags_codes split: option.splits)

lemma checkPorts_combinational:
  assumes "direction port0 = Out"
  shows "\<not> fst (checkPorts ctx l body (port0 # port1 # others))"
    and "fst (snd (checkPorts ctx l body (port0 # port1 # others))) = None"
    and "diagsWith PrimitiveInitialInComb (snd (snd (checkPorts ctx l body (port0 # port1 # others)))) =
       (case initialStmt body of
          None \<Rightarrow> []
        | Some initial \<Rightarrow> [diag PrimitiveInitialInComb (initialRange initial)])"
  using assms
  by (simp_all add: checkPorts_def Let_def checkInitialStmt_combinational
        diagsWith_simps dupOutputDiags_codes split: option.splits)

lemma fromSyntax_unfold:
  "primPorts (fst (PrimitiveSymbol_fromSyntax ctx syntax)) = fst (buildPorts syntax)"
  "isSequential (fst (PrimitiveSymbol_fromSyntax ctx syntax)) =
     fst (checkPorts ctx (tokLocation (udpName syntax)) (udpBody syntax) (fst (buildPorts syntax)))"
  "initVal (fst (PrimitiveSymbol_fromSyntax ctx syntax)) =
     fst (snd (checkPorts ctx (tokLocation (udpName syntax)) (udpBody syntax) (fst (buildPorts syntax))))"
  "snd (PrimitiveSymbol_fromSyntax ctx syntax) =
     snd (buildPorts syntax) @
     snd (snd (checkPorts ctx (tokLocation (udpName syntax)) (udpBody syntax) (fst (buildPorts syntax))))"
  by (simp_all add: PrimitiveSymbol_fromSyntax_def Let_def)

lemma initial_on_combinational:
  assumes "\<not> isSequential (fst (PrimitiveSymbol_fromSyntax ctx syntax))"
    and "initialStmt (udpBody syntax) = Some initial"
  shows "diagsWith PrimitiveTwoPorts (snd (PrimitiveSymbol_fromSyntax ctx syntax)) =
           [diag PrimitiveTwoPorts (tokLocation (udpName syntax))]
         \<or> diagsWith PrimitiveOutputFirst (snd (PrimitiveSymbol_fromSyntax ctx syntax)) \<noteq> []
         \<or> diagsWith PrimitiveInitialInComb (snd (PrimitiveSymbol_fromSyntax ctx syntax)) =
           [diag PrimitiveInitialInComb (initialRange initial)]"
proof -
  have b1: "diagsWith PrimitiveTwoPorts (snd (buildPorts syntax)) = []"
    using buildPorts_inv [of "syntax"] by (simp add: diagsWith_portDiags portListCode_def)
  have b2: "diagsWith PrimitiveOutputFirst (snd (buildPorts syntax)) = []"
    using buildPorts_inv [of "syntax"] by (simp add: diagsWith_portDiags portListCode_def)
  have b3: "diagsWith PrimitiveInitialInComb (snd (buildPorts syntax)) = []"
    using buildPorts_inv [of "syntax"] by (simp add: diagsWith_portDiags portListCode_def)
  show ?thesis
  proof (cases "fst (buildPorts syntax)")
    case Nil
    then show ?thesis
      by (simp add: fromSyntax_unfold diagsWith_simps b1 checkPorts_def)
  next
    case (Cons port0 rest)
    show ?thesis
    proof (cases rest)
      case Nil
      with Cons show ?thesis
        by (simp add: fromSyntax_unfold diagsWith_simps b1 checkPorts_def)
    next
      case c2: (Cons port1 others)
      show ?thesis
      proof (cases "direction port0")
        case In
        with Cons c2 show ?thesis
          by (simp add: fromSyntax_unfold diagsWith_simps b2 checkPorts_def)
      next
        case Out
        with Cons c2 assms(2) show ?thesis
          using checkPorts_combinational(3) [of port0 ctx "tokLocation (udpName syntax)"
              "udpBody syntax" port1 others]
          by (simp add: fromSyntax_unfold diagsWith_simps b3)
      next
        case OutReg
        with Cons c2 assms(1) show ?thesis
          using checkPorts_sequential(1) [of port0 ctx "tokLocation (udpName syntax)"
              "udpBody syntax" port1 others]
          by (simp add: fromSyntax_unfold)
      qed
    qed
  qed
qed

text \<open>
  Claim C2, as amended. For every user-defined primitive with at least two ports whose first
  port has direction \<^verbatim>\<open>output reg\<close>, the primitive is flagged sequential; its initial
  value expression (the inline initializer of that port, or else the value of the
  \<^verbatim>\<open>initial\<close> statement) is stored as the init value if and only if it binds without
  error to an integer literal of width 1 or unsized whose constant is 0, 1 or a one-bit x;
  when it binds without error and is not stored, one \<^verbatim>\<open>PrimitiveInitVal\<close> diagnostic is
  issued, and none otherwise. An \<^verbatim>\<open>initial\<close> statement on a primitive that is not
  sequential is diagnosed: with \<^verbatim>\<open>PrimitiveInitialInComb\<close> when the primitive has at
  least two ports and its first port is a plain \<^verbatim>\<open>output\<close> (such a primitive is not
  sequential and stores no init value), and otherwise by the \<^verbatim>\<open>PrimitiveTwoPorts\<close> or
  \<^verbatim>\<open>PrimitiveOutputFirst\<close> diagnostic of the port check.
\<close>

theorem udp_sequential_initial_value:
  "(primPorts (fst (PrimitiveSymbol_fromSyntax ctx syntax)) = port0 # port1 # others \<longrightarrow>
      (direction port0 = OutReg \<longrightarrow>
         isSequential (fst (PrimitiveSymbol_fromSyntax ctx syntax))
         \<and> initVal (fst (PrimitiveSymbol_fromSyntax ctx syntax)) =
             (case initialValueExpr port0 (udpBody syntax) of
                None \<Rightarrow> None
              | Some e \<Rightarrow> if exprBad (bind ctx e) then None else acceptedInitVal ctx (bind ctx e))
         \<and> diagsWith PrimitiveInitVal (snd (PrimitiveSymbol_fromSyntax ctx syntax)) =
             (case initialValueExpr port0 (udpBody syntax) of
                None \<Rightarrow> []
              | Some e \<Rightarrow> if exprBad (bind ctx e) \<or> acceptedInitVal ctx (bind ctx e) \<noteq> None then []
                          else [diag PrimitiveInitVal (exprSourceRange (bind ctx e))]))
      \<and> (direction port0 = Out \<longrightarrow>
         \<not> isSequential (fst (PrimitiveSymbol_fromSyntax ctx syntax))
         \<and> initVal (fst (PrimitiveSymbol_fromSyntax ctx syntax)) = None
         \<and> diagsWith PrimitiveInitialInComb (snd (PrimitiveSymbol_fromSyntax ctx syntax)) =
             (case initialStmt (udpBody syntax) of
                None \<Rightarrow> []
              | Some initial \<Rightarrow> [diag PrimitiveInitialInComb (initialRange initial)])))
   \<and> ((acceptedInitVal ctx expr = Some cv) =
        (exprKind expr = IntegerLiteral \<and> (typeBitWidth expr = 1 \<or> isUnsizedInteger expr)
         \<and> (\<exists>val. exprConstant (snd (eval ctx expr)) = Some (IntegerValue val) \<and> cv = IntegerValue val
               \<and> (svEquals0 val \<or> svEquals1 val \<or> (svBitWidth val = 1 \<and> svBit0 val = LX)))))
   \<and> (\<not> isSequential (fst (PrimitiveSymbol_fromSyntax ctx syntax))
        \<and> initialStmt (udpBody syntax) = Some initial \<longrightarrow>
        diagsWith PrimitiveTwoPorts (snd (PrimitiveSymbol_fromSyntax ctx syntax)) =
           [diag PrimitiveTwoPorts (tokLocation (udpName syntax))]
        \<or> diagsWith PrimitiveOutputFirst (snd (PrimitiveSymbol_fromSyntax ctx syntax)) \<noteq> []
        \<or> diagsWith PrimitiveInitialInComb (snd (PrimitiveSymbol_fromSyntax ctx syntax)) =
           [diag PrimitiveInitialInComb (initialRange initial)])"
proof -
  have b1: "diagsWith PrimitiveInitVal (snd (buildPorts syntax)) = []"
    using buildPorts_inv [of "syntax"] by (simp add: diagsWith_portDiags portListCode_def)
  have b2: "diagsWith PrimitiveInitialInComb (snd (buildPorts syntax)) = []"
    using buildPorts_inv [of "syntax"] by (simp add: diagsWith_portDiags portListCode_def)
  have main: "primPorts (fst (PrimitiveSymbol_fromSyntax ctx syntax)) = port0 # port1 # others \<longrightarrow>
      (direction port0 = OutReg \<longrightarrow>
         isSequential (fst (PrimitiveSymbol_fromSyntax ctx syntax))
         \<and> initVal (fst (PrimitiveSymbol_fromSyntax ctx syntax)) =
             (case initialValueExpr port0 (udpBody syntax) of
                None \<Rightarrow> None
              | Some e \<Rightarrow> if exprBad (bind ctx e) then None else acceptedInitVal ctx (bind ctx e))
         \<and> diagsWith PrimitiveInitVal (snd (PrimitiveSymbol_fromSyntax ctx syntax)) =
             (case initialValueExpr port0 (udpBody syntax) of
                None \<Rightarrow> []
              | Some e \<Rightarrow> if exprBad (bind ctx e) \<or> acceptedInitVal ctx (bind ctx e) \<noteq> None then []
                          else [diag PrimitiveInitVal (exprSourceRange (bind ctx e))]))
      \<and> (direction port0 = Out \<longrightarrow>
         \<not> isSequential (fst (PrimitiveSymbol_fromSyntax ctx syntax))
         \<and> initVal (fst (PrimitiveSymbol_fromSyntax ctx syntax)) = None
         \<and> diagsWith PrimitiveInitialInComb (snd (PrimitiveSymbol_fromSyntax ctx syntax)) =
             (case initialStmt (udpBody syntax) of
                None \<Rightarrow> []
              | Some initial \<Rightarrow> [diag PrimitiveInitialInComb (initialRange initial)]))"
    by (simp add: fromSyntax_unfold diagsWith_simps b1 b2 checkPorts_sequential
          checkPorts_combinational)
  show ?thesis
    using main acceptedInitVal_iff [of ctx expr cv] initial_on_combinational [of ctx "syntax" initial]
    by blast
qed

text \<open>
  Claim C2 as stated fails. A primitive with the single port
  \<^verbatim>\<open>output reg q = 1'b1\<close> has a first port of direction \<^verbatim>\<open>output reg\<close> and is not
  flagged sequential; its initializer is 1 and is neither stored nor diagnosed with
  \<^verbatim>\<open>PrimitiveInitVal\<close>. With the ports \<^verbatim>\<open>output reg q = 2'b01, input a\<close> the
  initializer evaluates to 1 and is not stored. An initializer that binds to a bad
  expression is not stored and gets no \<^verbatim>\<open>PrimitiveInitVal\<close> diagnostic.
\<close>

theorem udp_sequential_initial_value_counterexample:
  "firstPortDirection (fst (PrimitiveSymbol_fromSyntax demo_udpContext demo_onePortUdp)) = Some OutReg
   \<and> \<not> isSequential (fst (PrimitiveSymbol_fromSyntax demo_udpContext demo_onePortUdp))
   \<and> initVal (fst (PrimitiveSymbol_fromSyntax demo_udpContext demo_onePortUdp)) = None
   \<and> snd (PrimitiveSymbol_fromSyntax demo_udpContext demo_onePortUdp) = [diag PrimitiveTwoPorts 10]
   \<and> firstPortDirection (fst (PrimitiveSymbol_fromSyntax demo_udpContext demo_wideInitUdp)) = Some OutReg
   \<and> exprConstant (snd (eval demo_udpContext (bind demo_udpContext (OtherExpression 3 27 [])))) =
        Some (IntegerValue \<lparr>svBitWidth = 2, svBit0 = L1, svEquals0 = False, svEquals1 = True\<rparr>)
   \<and> initVal (fst (PrimitiveSymbol_fromSyntax demo_udpContext demo_wideInitUdp)) = None
   \<and> snd (PrimitiveSymbol_fromSyntax demo_udpContext demo_wideInitUdp) = [diag PrimitiveInitVal 27]
   \<and> firstPortDirection (fst (PrimitiveSymbol_fromSyntax demo_udpContext demo_badInitUdp)) = Some OutReg
   \<and> exprBad (bind demo_udpContext (OtherExpression 9 27 []))
   \<and> initVal (fst (PrimitiveSymbol_fromSyntax demo_udpContext demo_badInitUdp)) = None
   \<and> snd (PrimitiveSymbol_fromSyntax demo_udpContext demo_badInitUdp) = []"
  by (simp add: demo_onePortUdp_def demo_wideInitUdp_def demo_badInitUdp_def
        demo_udpContext_def demo_context_def demo_udpLiteral_def
        PrimitiveSymbol_fromSyntax_def buildPorts_def nonAnsiPorts_def
        regSpecifierStep_def outputDeclStep_def inputNameStep_def checkDup_def portAt_def
        updatePort_def newPrimitivePortSymbol_def Let_def
        checkPorts_def missingPortDiags_def checkInitialStmt_def
        checkInitExpr_def acceptedInitVal_def inlineInitializer_def dupOutputDiags_def
        firstPortDirection_def firstOf_def)

theorem udp_sequential_initial_value_witness:
  "isSequential (fst (PrimitiveSymbol_fromSyntax demo_udpContext demo_sequentialUdp))
   \<and> initVal (fst (PrimitiveSymbol_fromSyntax demo_udpContext demo_sequentialUdp)) =
        Some (IntegerValue \<lparr>svBitWidth = 1, svBit0 = LX, svEquals0 = False, svEquals1 = False\<rparr>)
   \<and> snd (PrimitiveSymbol_fromSyntax demo_udpContext demo_sequentialUdp) = []
   \<and> \<not> isSequential (fst (PrimitiveSymbol_fromSyntax demo_udpContext demo_combinationalUdp))
   \<and> diagsWith PrimitiveInitialInComb (snd (PrimitiveSymbol_fromSyntax demo_udpContext demo_combinationalUdp)) =
        [diag PrimitiveInitialInComb 32]
   \<and> diagsWith PrimitiveInitVal (snd (PrimitiveSymbol_fromSyntax demo_udpContext demo_wideInitUdp)) =
        [diag PrimitiveInitVal 27]"
proof -
  have p1: "primPorts (fst (PrimitiveSymbol_fromSyntax demo_udpContext demo_sequentialUdp)) =
      \<lparr>portName = ''q'', portLocation = 40, direction = OutReg, portType = LogicType,
        portSyntax = Some (FromOutputDecl \<lparr>outKeyword = True, outReg = True, outRegLocation = 36,
                               outName = Token ''q'' 40, outInitializer = None, outRange = 29\<rparr>)\<rparr>
      # \<lparr>portName = ''a'', portLocation = 26, direction = In, portType = LogicType,
          portSyntax = Some (FromIdentifierName (Token ''a'' 26))\<rparr> # []"
    by (simp add: demo_sequentialUdp_def
        PrimitiveSymbol_fromSyntax_def buildPorts_def nonAnsiPorts_def
        regSpecifierStep_def outputDeclStep_def inputNameStep_def checkDup_def portAt_def
        updatePort_def newPrimitivePortSymbol_def Let_def)
  have p2: "primPorts (fst (PrimitiveSymbol_fromSyntax demo_udpContext demo_combinationalUdp)) =
      \<lparr>portName = ''q'', portLocation = 19, direction = Out, portType = LogicType,
        portSyntax = Some (FromOutputDecl \<lparr>outKeyword = True, outReg = False, outRegLocation = 0,
                            outName = Token ''q'' 19, outInitializer = None, outRange = 12\<rparr>)\<rparr>
      # \<lparr>portName = ''a'', portLocation = 28, direction = In, portType = LogicType,
          portSyntax = Some (FromIdentifierName (Token ''a'' 28))\<rparr> # []"
    by (simp add: demo_combinationalUdp_def
        PrimitiveSymbol_fromSyntax_def buildPorts_def nonAnsiPorts_def
        regSpecifierStep_def outputDeclStep_def inputNameStep_def checkDup_def portAt_def
        updatePort_def newPrimitivePortSymbol_def Let_def)
  have p3: "primPorts (fst (PrimitiveSymbol_fromSyntax demo_udpContext demo_wideInitUdp)) =
      \<lparr>portName = ''q'', portLocation = 23, direction = OutReg, portType = LogicType,
        portSyntax = Some (FromOutputDecl \<lparr>outKeyword = True, outReg = True, outRegLocation = 19,
                            outName = Token ''q'' 23, outInitializer = Some (OtherExpression 3 27 []),
                            outRange = 12\<rparr>)\<rparr>
      # \<lparr>portName = ''a'', portLocation = 40, direction = In, portType = LogicType,
          portSyntax = Some (FromIdentifierName (Token ''a'' 40))\<rparr> # []"
    by (simp add: demo_wideInitUdp_def
        PrimitiveSymbol_fromSyntax_def buildPorts_def nonAnsiPorts_def
        regSpecifierStep_def outputDeclStep_def inputNameStep_def checkDup_def portAt_def
        updatePort_def newPrimitivePortSymbol_def Let_def)
  show ?thesis
    using udp_sequential_initial_value [THEN conjunct1, THEN mp, OF p1]
      udp_sequential_initial_value [THEN conjunct1, THEN mp, OF p2]
      udp_sequential_initial_value [THEN conjunct1, THEN mp, OF p3]
    by (simp add: demo_sequentialUdp_def demo_combinationalUdp_def demo_wideInitUdp_def
        demo_udpContext_def demo_context_def demo_udpLiteral_def
        PrimitiveSymbol_fromSyntax_def buildPorts_def nonAnsiPorts_def
        regSpecifierStep_def outputDeclStep_def inputNameStep_def checkDup_def portAt_def
        updatePort_def newPrimitivePortSymbol_def Let_def
        checkPorts_def missingPortDiags_def checkInitialStmt_def
        checkInitExpr_def acceptedInitVal_def inlineInitializer_def dupOutputDiags_def
        diagsWith_def initialValueExpr_def)
qed

text \<open>
  Claim C3, as amended. For every user-defined primitive declaration whose port list is the
  wildcard form, elaboration creates no ports and issues exactly one diagnostic,
  \<^verbatim>\<open>PrimitiveTwoPorts\<close> at the primitive's name; it is not sequential, has no init value,
  and no \<^verbatim>\<open>UnsupportedUdpPortList\<close> diagnostic is issued.
\<close>

theorem wildcard_port_list:
  "portList syntax = WildcardUdpPortList \<longrightarrow>
     PrimitiveSymbol_fromSyntax ctx syntax =
       (\<lparr>primName = valueText (udpName syntax), primLocation = tokLocation (udpName syntax),
         primPorts = [], isSequential = False, initVal = None\<rparr>,
        [diag PrimitiveTwoPorts (tokLocation (udpName syntax))])
     \<and> diagsWith UnsupportedUdpPortList (snd (PrimitiveSymbol_fromSyntax ctx syntax)) = []"
  by (simp add: PrimitiveSymbol_fromSyntax_def buildPorts_def checkPorts_def Let_def diagsWith_simps)

text \<open>
  Claim C3 as stated fails: the only diagnostic of a primitive with a wildcard port list is
  \<^verbatim>\<open>PrimitiveTwoPorts\<close>.
\<close>

theorem wildcard_port_list_counterexample:
  "portList demo_wildcardUdp = WildcardUdpPortList
   \<and> map code (snd (PrimitiveSymbol_fromSyntax demo_udpContext demo_wildcardUdp)) = [PrimitiveTwoPorts]
   \<and> diagsWith UnsupportedUdpPortList (snd (PrimitiveSymbol_fromSyntax demo_udpContext demo_wildcardUdp)) = []"
  by (simp add: demo_wildcardUdp_def PrimitiveSymbol_fromSyntax_def buildPorts_def checkPorts_def
        Let_def diagsWith_def)

theorem wildcard_port_list_witness:
  "portList demo_wildcardUdp = WildcardUdpPortList
   \<and> PrimitiveSymbol_fromSyntax demo_udpContext demo_wildcardUdp =
       (\<lparr>primName = ''p'', primLocation = 10, primPorts = [], isSequential = False, initVal = None\<rparr>,
        [diag PrimitiveTwoPorts 10])"
  using wildcard_port_list [of demo_wildcardUdp demo_udpContext]
  by (simp add: demo_wildcardUdp_def)

section \<open>Properties of variable declarations\<close>

lemma modifierLoop_snoc:
  "modifierLoop p st (ms @ [m]) = modifierStep p (modifierLoop p st ms) m"
  by (induction ms arbitrary: st) simp_all

lemma modifierLoop_diags:
  "modDiags (modifierLoop p st ms) =
     modDiags st @ (if p then [] else map (\<lambda>m. diag AutomaticNotAllowed (modRange m)) (filter isAutomaticKeyword ms))"
proof (induction ms arbitrary: st)
  case Nil
  then show ?case by simp
next
  case (Cons m ms)
  have k: "isAutomaticKeyword m = (modKind m = AutomaticKeyword)"
    by (simp add: isAutomaticKeyword_def)
  show ?case
    by (cases "modKind m") (simp_all add: Cons.IH modifierStep_def k)
qed

lemma modifierLoop_lifetime:
  "explicitLifetime (modifierLoop p st ms) =
     (case lastLifetimeKeyword ms of
        None \<Rightarrow> explicitLifetime st
      | Some k \<Rightarrow> Some (if k = AutomaticKeyword \<and> p then Automatic else Static))"
proof (induction ms rule: rev_induct)
  case Nil
  then show ?case by (simp add: lastLifetimeKeyword_def firstOf_def)
next
  case (snoc m ms)
  then show ?case
    by (cases "modKind m")
       (simp_all add: modifierLoop_snoc modifierStep_def lastLifetimeKeyword_def firstOf_def
          isLifetimeKeyword_def split: list.splits option.splits)
qed

lemma lastLifetimeKeyword_None:
  "(lastLifetimeKeyword ms = None) = (\<not> hasLifetimeKeyword ms)"
  by (cases "filter isLifetimeKeyword ms" rule: rev_cases)
     (simp_all add: lastLifetimeKeyword_def hasLifetimeKeyword_def firstOf_def)

lemma declaratorLoop_vars:
  "fst (declaratorLoop scope c i lt e ds) =
     map (\<lambda>d. fst (declaratorStep scope c i lt e d)) ds"
  by (induction ds) (simp_all add: Let_def split_beta)

lemma declaratorLoop_static_diags:
  "diagsWith StaticInitializerMustBeExplicit (snd (declaratorLoop scope c i lt e ds)) =
     (if lt = Static \<and> \<not> e \<and> isProceduralContext scope
      then map (\<lambda>d. diag StaticInitializerMustBeExplicit (declNameLocation d)) (filter hasInitializer ds)
      else [])"
  by (induction ds) (simp_all add: Let_def split_beta declaratorStep_def diagsWith_simps)

lemma declaratorLoop_automatic_diags:
  "diagsWith AutomaticNotAllowed (snd (declaratorLoop scope c i lt e ds)) = []"
  by (induction ds) (simp_all add: Let_def split_beta declaratorStep_def diagsWith_simps)

lemma diagsWith_map_same:
  "diagsWith c (map (\<lambda>m. diag c (f m)) ms) = map (\<lambda>m. diag c (f m)) ms"
  by (induction ms) (simp_all add: diagsWith_simps)

lemma diagsWith_map_other:
  "c \<noteq> c' \<Longrightarrow> diagsWith c (map (\<lambda>m. diag c' (f m)) ms) = []"
  by (induction ms) (simp_all add: diagsWith_simps)

lemma declaratorLoop_lifetimes:
  "\<forall>v\<in>set (fst (declaratorLoop scope c i lt e ds)). lifetime v = lt"
  by (induction ds) (simp_all add: Let_def split_beta declaratorStep_def newVariableSymbol_def)

lemma declaratorLoop_names:
  "map varName (fst (declaratorLoop scope c i lt e ds)) = map declName ds"
  by (induction ds) (simp_all add: Let_def split_beta declaratorStep_def newVariableSymbol_def)

lemma automatic_last:
  "filter isAutomaticKeyword ms \<noteq> [] \<Longrightarrow> lastLifetimeKeyword ms \<noteq> None"
proof -
  assume a: "filter isAutomaticKeyword ms \<noteq> []"
  then obtain m where "m \<in> set ms" "isAutomaticKeyword m"
    by (metis filter_False)
  then have "m \<in> set (filter isLifetimeKeyword ms)"
    by (simp add: isAutomaticKeyword_def isLifetimeKeyword_def)
  then have "hasLifetimeKeyword ms"
    unfolding hasLifetimeKeyword_def by (metis empty_iff list.set(1))
  then show ?thesis
    by (simp add: lastLifetimeKeyword_None)
qed

text \<open>
  Claim C4. For a data declaration elaborated in a procedural scope, with no \<^verbatim>\<open>static\<close>
  or \<^verbatim>\<open>automatic\<close> keyword among its modifiers and a default lifetime that resolves to
  static, a \<^verbatim>\<open>StaticInitializerMustBeExplicit\<close> diagnostic is issued at the name of each
  declarator that has an initializer, and at no other. In every other case (an explicit
  lifetime keyword is present, also an \<^verbatim>\<open>automatic\<close> that was demoted to static; the
  scope is not procedural; the default lifetime is automatic) no such diagnostic is issued,
  and a declarator without initializer never gets one.
\<close>

theorem static_initializer_must_be_explicit:
  "diagsWith StaticInitializerMustBeExplicit (snd (VariableSymbol_fromSyntax scope syntax)) =
     (if isProceduralContext scope \<and> \<not> hasLifetimeKeyword (modifiers syntax)
          \<and> getDefaultLifetime scope = Static
      then map (\<lambda>d. diag StaticInitializerMustBeExplicit (declNameLocation d))
             (filter hasInitializer (declarators syntax))
      else [])"
proof -
  define st where "st = modifierLoop (isProceduralContext scope)
               \<lparr>isConst = False, explicitLifetime = None, modDiags = []\<rparr> (modifiers syntax)"
  have none: "(explicitLifetime st = None) = (\<not> hasLifetimeKeyword (modifiers syntax))"
    unfolding st_def
    by (simp add: modifierLoop_lifetime lastLifetimeKeyword_None [symmetric] split: option.splits)
  have md: "diagsWith StaticInitializerMustBeExplicit (modDiags st) = []"
    unfolding st_def
    by (simp add: modifierLoop_diags diagsWith_simps diagsWith_map_other)
  have unf: "snd (VariableSymbol_fromSyntax scope syntax) =
      modDiags st @ snd (declaratorLoop scope (isConst st)
        (scopeKind scope = InstanceBody \<and> definitionKind scope = Interface)
        (case explicitLifetime st of Some l \<Rightarrow> l | None \<Rightarrow> getDefaultLifetime scope)
        (explicitLifetime st \<noteq> None) (declarators syntax))"
    unfolding st_def by (simp add: VariableSymbol_fromSyntax_def Let_def split_beta)
  show ?thesis
  proof (cases "explicitLifetime st")
    case None
    with none md show ?thesis
      by (simp add: unf diagsWith_simps declaratorLoop_static_diags)
  next
    case (Some l)
    with none md show ?thesis
      by (simp add: unf diagsWith_simps declaratorLoop_static_diags)
  qed
qed

theorem static_initializer_must_be_explicit_witness:
  "diagsWith StaticInitializerMustBeExplicit (snd (VariableSymbol_fromSyntax demo_blockScope demo_plainDecl))
     = [diag StaticInitializerMustBeExplicit 20]
   \<and> diagsWith StaticInitializerMustBeExplicit (snd (VariableSymbol_fromSyntax demo_blockScope demo_automaticDecl))
     = []"
  using static_initializer_must_be_explicit [of demo_blockScope demo_plainDecl]
    static_initializer_must_be_explicit [of demo_blockScope demo_automaticDecl]
  by (simp add: demo_blockScope_def demo_plainDecl_def demo_automaticDecl_def demo_declX_def
        demo_declY_def hasLifetimeKeyword_def isLifetimeKeyword_def getDefaultLifetime_def)

text \<open>
  Claim C5, as amended. In a scope that is not procedural, every \<^verbatim>\<open>automatic\<close> modifier
  of a data declaration is diagnosed with \<^verbatim>\<open>AutomaticNotAllowed\<close> at that modifier, and
  every variable created from a declaration that carries the modifier has Static lifetime.
  In a procedural scope no \<^verbatim>\<open>AutomaticNotAllowed\<close> diagnostic is issued and the last
  lifetime keyword among the modifiers decides: the variables are Automatic when it is
  \<^verbatim>\<open>automatic\<close> and Static when it is \<^verbatim>\<open>static\<close>. One variable is created for each
  declarator.
\<close>

theorem automatic_modifier_lifetime:
  "(\<not> isProceduralContext scope \<longrightarrow>
      diagsWith AutomaticNotAllowed (snd (VariableSymbol_fromSyntax scope syntax)) =
        map (\<lambda>m. diag AutomaticNotAllowed (modRange m)) (filter isAutomaticKeyword (modifiers syntax))
      \<and> (filter isAutomaticKeyword (modifiers syntax) \<noteq> [] \<longrightarrow>
           (\<forall>v\<in>set (fst (VariableSymbol_fromSyntax scope syntax)). lifetime v = Static)))
   \<and> (isProceduralContext scope \<longrightarrow>
      diagsWith AutomaticNotAllowed (snd (VariableSymbol_fromSyntax scope syntax)) = []
      \<and> (lastLifetimeKeyword (modifiers syntax) = Some AutomaticKeyword \<longrightarrow>
           (\<forall>v\<in>set (fst (VariableSymbol_fromSyntax scope syntax)). lifetime v = Automatic))
      \<and> (lastLifetimeKeyword (modifiers syntax) = Some StaticKeyword \<longrightarrow>
           (\<forall>v\<in>set (fst (VariableSymbol_fromSyntax scope syntax)). lifetime v = Static)))
   \<and> map varName (fst (VariableSymbol_fromSyntax scope syntax)) = map declName (declarators syntax)"
proof -
  define st where "st = modifierLoop (isProceduralContext scope)
               \<lparr>isConst = False, explicitLifetime = None, modDiags = []\<rparr> (modifiers syntax)"
  define lt where "lt = (case explicitLifetime st of Some l \<Rightarrow> l | None \<Rightarrow> getDefaultLifetime scope)"
  have lf: "explicitLifetime st =
     (case lastLifetimeKeyword (modifiers syntax) of
        None \<Rightarrow> None
      | Some k \<Rightarrow> Some (if k = AutomaticKeyword \<and> isProceduralContext scope then Automatic else Static))"
    unfolding st_def by (simp add: modifierLoop_lifetime split: option.splits)
  have md: "modDiags st = (if isProceduralContext scope then []
      else map (\<lambda>m. diag AutomaticNotAllowed (modRange m)) (filter isAutomaticKeyword (modifiers syntax)))"
    unfolding st_def by (simp add: modifierLoop_diags)
  have unf2: "snd (VariableSymbol_fromSyntax scope syntax) =
      modDiags st @ snd (declaratorLoop scope (isConst st)
        (scopeKind scope = InstanceBody \<and> definitionKind scope = Interface)
        lt (explicitLifetime st \<noteq> None) (declarators syntax))"
    unfolding st_def lt_def by (simp add: VariableSymbol_fromSyntax_def Let_def split_beta)
  have unf1: "fst (VariableSymbol_fromSyntax scope syntax) =
      fst (declaratorLoop scope (isConst st)
        (scopeKind scope = InstanceBody \<and> definitionKind scope = Interface)
        lt (explicitLifetime st \<noteq> None) (declarators syntax))"
    unfolding st_def lt_def by (simp add: VariableSymbol_fromSyntax_def Let_def split_beta)
  have dg: "diagsWith AutomaticNotAllowed (snd (VariableSymbol_fromSyntax scope syntax)) =
     (if isProceduralContext scope then []
      else map (\<lambda>m. diag AutomaticNotAllowed (modRange m)) (filter isAutomaticKeyword (modifiers syntax)))"
    by (simp add: unf2 md diagsWith_simps declaratorLoop_automatic_diags diagsWith_map_same)
  have lts: "\<forall>v\<in>set (fst (VariableSymbol_fromSyntax scope syntax)). lifetime v = lt"
    unfolding unf1 by (rule declaratorLoop_lifetimes)
  have nm: "map varName (fst (VariableSymbol_fromSyntax scope syntax)) = map declName (declarators syntax)"
    by (simp add: unf1 declaratorLoop_names)
  have l1: "\<not> isProceduralContext scope \<Longrightarrow> filter isAutomaticKeyword (modifiers syntax) \<noteq> [] \<Longrightarrow> lt = Static"
    using automatic_last [of "modifiers syntax"] by (auto simp: lt_def lf split: option.splits)
  have l2: "isProceduralContext scope \<Longrightarrow> lastLifetimeKeyword (modifiers syntax) = Some AutomaticKeyword \<Longrightarrow> lt = Automatic"
    by (simp add: lt_def lf)
  have l3: "lastLifetimeKeyword (modifiers syntax) = Some StaticKeyword \<Longrightarrow> lt = Static"
    by (simp add: lt_def lf)
  show ?thesis
    using dg lts nm l1 l2 l3 by simp
qed

text \<open>
  Claim C5 as stated fails: in a procedural scope a declaration with the modifiers
  \<^verbatim>\<open>automatic static\<close> carries the \<^verbatim>\<open>automatic\<close> modifier, and its variable is Static.
\<close>

theorem automatic_always_automatic_counterexample:
  "isProceduralContext demo_blockScope
   \<and> map modKind (modifiers demo_automaticStaticDecl) = [AutomaticKeyword, StaticKeyword]
   \<and> map lifetime (fst (VariableSymbol_fromSyntax demo_blockScope demo_automaticStaticDecl)) = [Static]"
  by (simp add: demo_blockScope_def demo_automaticStaticDecl_def demo_declX_def
        VariableSymbol_fromSyntax_def modifierStep_def declaratorStep_def
        newVariableSymbol_def getDefaultLifetime_def Let_def split_beta)

theorem automatic_modifier_lifetime_witness:
  "\<not> isProceduralContext demo_moduleScope
   \<and> filter isAutomaticKeyword (modifiers demo_automaticDecl) \<noteq> []
   \<and> diagsWith AutomaticNotAllowed (snd (VariableSymbol_fromSyntax demo_moduleScope demo_automaticDecl))
        = [diag AutomaticNotAllowed 10]
   \<and> map lifetime (fst (VariableSymbol_fromSyntax demo_moduleScope demo_automaticDecl)) = [Static, Static]
   \<and> isProceduralContext demo_blockScope
   \<and> lastLifetimeKeyword (modifiers demo_automaticDecl) = Some AutomaticKeyword
   \<and> diagsWith AutomaticNotAllowed (snd (VariableSymbol_fromSyntax demo_blockScope demo_automaticDecl)) = []
   \<and> map lifetime (fst (VariableSymbol_fromSyntax demo_blockScope demo_automaticDecl)) = [Automatic, Automatic]
   \<and> map varName (fst (VariableSymbol_fromSyntax demo_blockScope demo_automaticDecl)) = [''x'', ''y'']"
  using automatic_modifier_lifetime [of demo_moduleScope demo_automaticDecl]
    automatic_modifier_lifetime [of demo_blockScope demo_automaticDecl]
  by (simp add: demo_moduleScope_def demo_blockScope_def demo_automaticDecl_def demo_declX_def
        demo_declY_def VariableSymbol_fromSyntax_def modifierStep_def declaratorStep_def
        newVariableSymbol_def getDefaultLifetime_def Let_def split_beta
        diagsWith_def isAutomaticKeyword_def isLifetimeKeyword_def lastLifetimeKeyword_def
        firstOf_def)

end
